theory Spec2Isabelle
  imports Complex_Main "HOL-Library.AList" "HOL-Library.Sublist"
begin

section \<open>JavaScript exceptions as values\<close>

text \<open>
  The exceptions the modelled code can meet: \<open>SecurityError\<close> (reading \<open>localStorage\<close>
  is refused), \<open>QuotaExceededError\<close> (\<open>setItem\<close> is refused), \<open>SyntaxError\<close>
  (\<open>JSON.parse\<close> of text that is not JSON), \<open>TypeError\<close> (a DOM call on a missing
  object) and \<open>InvalidCharacterError\<close> (\<open>btoa\<close> of a string with a code unit above
  U+00FF). A computation that may throw returns \<open>Inl\<close> of the exception.
\<close>

datatype exn =
  SecurityError | QuotaExceededError | SyntaxError | TypeError | InvalidCharacterError

definition andThen :: "exn + 'a \<Rightarrow> ('a \<Rightarrow> exn + 'b) \<Rightarrow> exn + 'b" where
  "andThen m f = (case m of Inl e \<Rightarrow> Inl e | Inr v \<Rightarrow> f v)"

text \<open>\<open>try { body } catch (e) { handler }\<close>\<close>

definition try_catch :: "exn + 'a \<Rightarrow> (exn \<Rightarrow> exn + 'a) \<Rightarrow> exn + 'a" where
  "try_catch body handler = (case body of Inl e \<Rightarrow> handler e | Inr v \<Rightarrow> Inr v)"

section \<open>Data model of the blacklist system (the unnamed source file, part 000)\<close>

text \<open>One element of a \<open>reasons\<close> array: \<open>{reason, timestamp}\<close>.\<close>

record reason_entry =
  entry_reason :: string
  entry_timestamp :: int

text \<open>The value of \<open>failedAttempts[clientId]\<close>: \<open>{count, reasons, firstAttempt}\<close>.\<close>

record failed_attempt =
  count :: nat
  attempt_reasons :: "reason_entry list"
  firstAttempt :: int

text \<open>The value of \<open>blacklist[clientId]\<close>: \<open>{added, expires, reasons}\<close>.\<close>

record blacklist_entry =
  added :: int
  expires :: int
  reasons :: "reason_entry list"

text \<open>
  A JavaScript object used as a dictionary keeps its string keys in insertion order, and
  \<open>JSON.stringify\<close> and \<open>Object.keys\<close> follow that order: an association list, with
  \<open>obj[k] = v\<close> as \<open>AList.update\<close> (in place, or appended when the key is new),
  \<open>delete obj[k]\<close> as \<open>AList.delete\<close> and \<open>obj[k]\<close> as \<open>map_of\<close>.
\<close>

type_synonym blacklist = "(string \<times> blacklist_entry) list"
type_synonym attempts = "(string \<times> failed_attempt) list"

text \<open>
  What one key of \<open>localStorage\<close> holds: nothing (\<open>getItem\<close> returns \<open>null\<close>, or the
  empty string, which \<open>|| '{}'\<close> treats alike), text that \<open>JSON.parse\<close> rejects, or the
  text \<open>JSON.stringify\<close> wrote for a value.
\<close>

datatype 'a item = Missing | Garbled | Stored 'a

record storage =
  readable :: bool
  writable :: bool
  captcha_blacklist :: "blacklist item"
  captcha_failed_attempts :: "attempts item"

text \<open>
  \<open>localStorage.getItem(key)\<close>: the key is given by the field of the storage it names.
  It throws when the storage cannot be read.
\<close>

definition getItem :: "storage \<Rightarrow> (storage \<Rightarrow> 'a item) \<Rightarrow> exn + 'a item" where
  "getItem ls key = (if readable ls then Inr (key ls) else Inl SecurityError)"

text \<open>\<open>JSON.parse(text || '{}')\<close>: the empty object is the empty association list.\<close>

definition JSON_parse_or_empty :: "('k \<times> 'v) list item \<Rightarrow> exn + ('k \<times> 'v) list" where
  "JSON_parse_or_empty text =
     (case text of Missing \<Rightarrow> Inr [] | Garbled \<Rightarrow> Inl SyntaxError | Stored v \<Rightarrow> Inr v)"

text \<open>\<open>localStorage.setItem(key, JSON.stringify(v))\<close> for the two keys the code writes.\<close>

definition setItem_captcha_blacklist :: "storage \<Rightarrow> blacklist \<Rightarrow> exn + storage" where
  "setItem_captcha_blacklist ls v =
     (if writable ls then Inr (ls\<lparr>captcha_blacklist := Stored v\<rparr>) else Inl QuotaExceededError)"

definition setItem_captcha_failed_attempts :: "storage \<Rightarrow> attempts \<Rightarrow> exn + storage" where
  "setItem_captcha_failed_attempts ls v =
     (if writable ls then Inr (ls\<lparr>captcha_failed_attempts := Stored v\<rparr>)
      else Inl QuotaExceededError)"

text \<open>
  The mutable fields of the \<open>blacklistSystem\<close> object, and the \<open>localStorage\<close> of the
  origin it reads and writes.
\<close>

record state =
  blacklistedIPs :: "string list"
  failedAttempts :: attempts
  localStorage :: storage

text \<open>\<open>thresholds: { maxFailedAttempts: 3, blacklistDuration: 86400 }\<close>\<close>

definition maxFailedAttempts :: nat where
  "maxFailedAttempts = 3"

definition blacklistDuration :: int where
  "blacklistDuration = 86400"

text \<open>
  \<open>Date.now()\<close> is read at four places on the way through \<open>recordFailedAttempt\<close>
  (lines 182, 190, 214 and 215); the model takes the four readings as they come.
\<close>

record clock =
  firstAttempt_now :: int
  timestamp_now :: int
  added_now :: int
  expires_now :: int

section \<open>Operations of the blacklist store\<close>

text \<open>
  \<open>JSON.parse(localStorage.getItem('captcha_blacklist') || '{}')\<close>, the first statement
  of the \<open>try\<close> block of lines 162, 210, 234 and 268.
\<close>

definition read_captcha_blacklist :: "storage \<Rightarrow> exn + blacklist" where
  "read_captcha_blacklist ls = andThen (getItem ls captcha_blacklist) JSON_parse_or_empty"

text \<open>\<open>isClientBlacklisted(clientId)\<close>, lines 160-167; \<open>now\<close> is its reading of the clock.\<close>

definition isClientBlacklisted :: "storage \<Rightarrow> string \<Rightarrow> int \<Rightarrow> exn + bool" where
  "isClientBlacklisted ls clientId now =
     try_catch
       (andThen (read_captcha_blacklist ls) (\<lambda>blacklist.
          case map_of blacklist clientId of
            None \<Rightarrow> Inr False
          | Some entry \<Rightarrow> Inr (expires entry > now)))
       (\<lambda>e. Inr False)"

text \<open>\<open>addToBlacklist(clientId, reasons)\<close>, lines 208-227.\<close>

definition addToBlacklist ::
  "state \<Rightarrow> string \<Rightarrow> reason_entry list \<Rightarrow> int \<Rightarrow> int \<Rightarrow> exn + state" where
  "addToBlacklist st clientId rs t_added t_expires =
     try_catch
       (andThen (read_captcha_blacklist (localStorage st)) (\<lambda>blacklist.
          let blacklist' = AList.update clientId
                \<lparr>added = t_added,
                 expires = t_expires + blacklistDuration * 1000,
                 reasons = rs\<rparr> blacklist
          in andThen (setItem_captcha_blacklist (localStorage st) blacklist') (\<lambda>ls'.
               Inr (st\<lparr>blacklistedIPs := blacklistedIPs st @ [clientId],
                       localStorage := ls'\<rparr>))))
       (\<lambda>e. Inr st)"

text \<open>\<open>loadBlacklist()\<close>, lines 232-239.\<close>

definition loadBlacklist :: "state \<Rightarrow> exn + state" where
  "loadBlacklist st =
     try_catch
       (andThen (read_captcha_blacklist (localStorage st)) (\<lambda>blacklist.
          Inr (st\<lparr>blacklistedIPs := map fst blacklist\<rparr>)))
       (\<lambda>e. Inr (st\<lparr>blacklistedIPs := []\<rparr>))"

text \<open>\<open>loadFailedAttempts()\<close>, lines 244-250.\<close>

definition loadFailedAttempts :: "state \<Rightarrow> exn + state" where
  "loadFailedAttempts st =
     try_catch
       (andThen (getItem (localStorage st) captcha_failed_attempts) (\<lambda>text.
        andThen (JSON_parse_or_empty text) (\<lambda>fa.
          Inr (st\<lparr>failedAttempts := fa\<rparr>))))
       (\<lambda>e. Inr (st\<lparr>failedAttempts := []\<rparr>))"

text \<open>\<open>saveFailedAttempts()\<close>, lines 255-261.\<close>

definition saveFailedAttempts :: "state \<Rightarrow> exn + state" where
  "saveFailedAttempts st =
     try_catch
       (andThen (setItem_captcha_failed_attempts (localStorage st) (failedAttempts st)) (\<lambda>ls'.
          Inr (st\<lparr>localStorage := ls'\<rparr>)))
       (\<lambda>e. Inr st)"

text \<open>
  The \<open>for (const clientId in blacklist)\<close> loop of \<open>cleanupExpiredEntries\<close>, lines 273-278,
  over the keys the object had when the loop began; a key deleted meanwhile is not visited.
  The pair is the local \<open>blacklist\<close> and the flag \<open>changed\<close>.
\<close>

fun cleanup_loop :: "string list \<Rightarrow> int \<Rightarrow> blacklist \<times> bool \<Rightarrow> blacklist \<times> bool" where
  "cleanup_loop [] now (blacklist, changed) = (blacklist, changed)"
| "cleanup_loop (clientId # ks) now (blacklist, changed) =
     (case map_of blacklist clientId of
        None \<Rightarrow> cleanup_loop ks now (blacklist, changed)
      | Some entry \<Rightarrow>
          if expires entry < now
          then cleanup_loop ks now (AList.delete clientId blacklist, True)
          else cleanup_loop ks now (blacklist, changed))"

text \<open>\<open>cleanupExpiredEntries()\<close>, lines 266-289.\<close>

definition cleanupExpiredEntries :: "state \<Rightarrow> int \<Rightarrow> exn + state" where
  "cleanupExpiredEntries st now =
     try_catch
       (andThen (read_captcha_blacklist (localStorage st)) (\<lambda>blacklist.
          case cleanup_loop (map fst blacklist) now (blacklist, False) of
            (blacklist', changed) \<Rightarrow>
              if changed
              then andThen (setItem_captcha_blacklist (localStorage st) blacklist') (\<lambda>ls'.
                     Inr (st\<lparr>blacklistedIPs := map fst blacklist', localStorage := ls'\<rparr>))
              else Inr st))
       (\<lambda>e. Inr st)"

text \<open>\<open>init()\<close>, lines 71-77.\<close>

definition init :: "state \<Rightarrow> int \<Rightarrow> exn + state" where
  "init st now = andThen (loadBlacklist st) (\<lambda>st1. cleanupExpiredEntries st1 now)"

text \<open>
  \<open>recordFailedAttempt(reason)\<close>, lines 174-201, from the identifier on: line 175 asks
  \<open>getClientIdentifier()\<close> for \<open>clientId\<close>, and the model takes the value of that call
  as an argument. A caller in the model evaluates \<open>getClientIdentifier\<close> first (see
  \<open>checkBlacklist\<close>), so where \<open>btoa\<close> throws, the exception leaves the caller and
  nothing below runs, as in the source.
\<close>

definition recordFailedAttempt :: "state \<Rightarrow> string \<Rightarrow> string \<Rightarrow> clock \<Rightarrow> exn + state" where
  "recordFailedAttempt st clientId why ck =
     (let rec0 = (case map_of (failedAttempts st) clientId of
                    None \<Rightarrow> \<lparr>count = 0, attempt_reasons = [],
                             firstAttempt = firstAttempt_now ck\<rparr>
                  | Some r \<Rightarrow> r);
          rec1 = rec0\<lparr>count := count rec0 + 1,
                      attempt_reasons := attempt_reasons rec0 @
                        [\<lparr>entry_reason = why, entry_timestamp = timestamp_now ck\<rparr>]\<rparr>;
          st1 = st\<lparr>failedAttempts := AList.update clientId rec1 (failedAttempts st)\<rparr>
      in if count rec1 \<ge> maxFailedAttempts
         then andThen (addToBlacklist st1 clientId (attempt_reasons rec1)
                         (added_now ck) (expires_now ck)) (\<lambda>st2.
                saveFailedAttempts
                  (st2\<lparr>failedAttempts := AList.delete clientId (failedAttempts st2)\<rparr>))
         else saveFailedAttempts st1)"


text \<open>
  A page load evaluates the script anew: the object starts with \<open>blacklistedIPs: []\<close> and
  \<open>failedAttempts: {}\<close> (lines 57 and 66) over the storage the origin already has, and
  \<open>DOMContentLoaded\<close> runs \<open>init\<close> (lines 650-652).
\<close>

definition page_load :: "storage \<Rightarrow> int \<Rightarrow> exn + state" where
  "page_load ls now = init \<lparr>blacklistedIPs = [], failedAttempts = [], localStorage = ls\<rparr> now"

section \<open>The blacklist check\<close>

text \<open>\<open>knownBotSignatures\<close>, lines 20-28, and \<open>securityTools\<close>, lines 31-37.\<close>

definition knownBotSignatures :: "string list" where
  "knownBotSignatures =
    [''googlebot'', ''bingbot'', ''yandexbot'', ''slurp'', ''duckduckbot'',
     ''baiduspider'', ''bytespider'', ''facebookexternalhit'', ''twitterbot'',
     ''rogerbot'', ''linkedinbot'', ''embedly'', ''quora link preview'', ''showyoubot'',
     ''outbrain'', ''pinterest'', ''slackbot'', ''vkshare'', ''w3c_validator'',
     ''postman'', ''curl'', ''wget'', ''python-requests'', ''ahrefs'', ''semrushbot'',
     ''mj12bot'', ''applebot'', ''dotbot'', ''zoominfobot'', ''scanner'', ''crawler'',
     ''spider'', ''headless'', ''scraper'', ''selenium'', ''webdriver'', ''puppeteer'',
     ''phantom'', ''nightmare'', ''jsdom'']"

definition securityTools :: "string list" where
  "securityTools =
    [''avast'', ''avg'', ''avira'', ''bitdefender'', ''kaspersky'', ''mcafee'', ''norton'',
     ''eset'', ''f-secure'', ''trend micro'', ''sophos'', ''symantec'', ''trustwave'',
     ''forcepoint'', ''checkpoint'', ''barracuda'', ''mimecast'', ''proofpoint'',
     ''fireeye'', ''crowdstrike'', ''cyren'', ''spamhaus'', ''spamcop'', ''netcraft'',
     ''virustotal'', ''sucuri'', ''urlscan'', ''zscaler'', ''office365'',
     ''microsoft-security'', ''cisco'', ''forcepoint'', ''cofense'']"

text \<open>
  A JavaScript string is a sequence of UTF-16 code units, numbers below 65536. A string
  literal of the source, all of them ASCII, is the list of its character codes.
\<close>

type_synonym js_string = "nat list"

definition units :: "string \<Rightarrow> js_string" where
  "units s = map of_char s"

text \<open>
  \<open>String.prototype.toLowerCase\<close>. On a string whose code units are all at most U+00FF
  the conversion goes unit by unit: \<open>A\<close> to \<open>Z\<close> and the capital letters of Latin-1
  (U+00C0 to U+00DE, without the multiplication sign U+00D7) move up by 32, every other
  unit stays. On a string with a code unit above U+00FF the result comes from the Unicode
  tables of the engine (U+212A becomes \<open>k\<close>, a final sigma depends on its neighbours);
  those tables are not part of the repository, and the model takes the engine's function
  for such strings as an argument.
\<close>

definition toLowerCase_unit :: "nat \<Rightarrow> nat" where
  "toLowerCase_unit u =
     (if (65 \<le> u \<and> u \<le> 90) \<or> (192 \<le> u \<and> u \<le> 222 \<and> u \<noteq> 215) then u + 32 else u)"

definition toLowerCase :: "(js_string \<Rightarrow> js_string) \<Rightarrow> js_string \<Rightarrow> js_string" where
  "toLowerCase engine s =
     (if list_all (\<lambda>u. u \<le> 255) s then map toLowerCase_unit s else engine s)"

text \<open>\<open>s.includes(part)\<close>: \<open>part\<close> occurs in \<open>s\<close> as a contiguous run.\<close>

definition includes_str :: "js_string \<Rightarrow> js_string \<Rightarrow> bool" where
  "includes_str s part = sublist part s"

text \<open>
  What the code reads from \<open>navigator\<close>, \<open>screen\<close>, \<open>window\<close> and the canvas.
  \<open>screen_size\<close> is the string \<open>screen.width + 'x' + screen.height\<close>;
  \<open>navigator_hardwareConcurrency\<close> and \<open>navigator_deviceMemory\<close> are the values of
  \<open>navigator.hardwareConcurrency || ''\<close> and \<open>navigator.deviceMemory || ''\<close> as
  \<open>Array.prototype.join\<close> renders them, and a \<open>navigator\<close> string that is undefined is
  rendered empty. \<open>canvas_toDataURL\<close> is the outcome of the \<open>try\<close> block of lines
  139-146. \<open>window_localStorage\<close> and \<open>window_sessionStorage\<close> are the outcomes of
  reading the two properties: whether the value is truthy, or the \<open>SecurityError\<close> the
  getter throws when the browser refuses storage. A number is a rational; \<open>None\<close> is
  \<open>undefined\<close>.
\<close>

record browser =
  navigator_userAgent :: js_string
  navigator_language :: js_string
  screen_size :: js_string
  navigator_hardwareConcurrency :: js_string
  navigator_deviceMemory :: js_string
  navigator_platform :: js_string
  navigator_vendor :: js_string
  canvas_toDataURL :: "exn + js_string"
  engine_toLowerCase :: "js_string \<Rightarrow> js_string"
  window_chrome_defined :: bool
  window_InstallTrigger_defined :: bool
  navigator_languages :: "string list option"
  window_localStorage :: "exn + bool"
  window_sessionStorage :: "exn + bool"
  window_devicePixelRatio :: "rat option"
  navigator_plugins_length :: "nat option"

text \<open>\<open>components.join('|')\<close>\<close>

fun join_bar :: "js_string list \<Rightarrow> js_string" where
  "join_bar [] = []"
| "join_bar [c] = c"
| "join_bar (c # d # cs) = c @ [124] @ join_bar (d # cs)"

text \<open>
  \<open>btoa\<close>: the Base64 text of a string whose code units are bytes, three bytes to four
  digits, padded with \<open>=\<close>; it throws on a code unit above U+00FF.
\<close>

definition base64_digit :: "nat \<Rightarrow> char" where
  "base64_digit n =
     ''ABCDEFGHIJKLMNOPQRSTUVWXYZabcdefghijklmnopqrstuvwxyz0123456789+/'' ! n"

fun base64 :: "nat list \<Rightarrow> string" where
  "base64 [] = []"
| "base64 [a] =
     [base64_digit (a div 4), base64_digit (a mod 4 * 16), CHR ''='', CHR ''='']"
| "base64 [a, b] =
     [base64_digit (a div 4), base64_digit (a mod 4 * 16 + b div 16),
      base64_digit (b mod 16 * 4), CHR ''='']"
| "base64 (a # b # c # rest) =
     [base64_digit (a div 4), base64_digit (a mod 4 * 16 + b div 16),
      base64_digit (b mod 16 * 4 + c div 64), base64_digit (c mod 64)] @ base64 rest"

definition btoa :: "js_string \<Rightarrow> exn + string" where
  "btoa s =
     (if list_all (\<lambda>u. u \<le> 255) s then Inr (base64 s) else Inl InvalidCharacterError)"

text \<open>
  \<open>getClientIdentifier()\<close>, lines 126-153: the canvas block pushes the data URL, or
  \<open>'no_canvas'\<close> when anything in it throws; \<open>btoa\<close> stands outside every \<open>try\<close>.
\<close>

definition getClientIdentifier :: "browser \<Rightarrow> exn + string" where
  "getClientIdentifier br =
     (let components =
            [navigator_userAgent br, navigator_language br, screen_size br,
             navigator_hardwareConcurrency br, navigator_deviceMemory br,
             navigator_platform br, navigator_vendor br];
          components' = components @
            [case canvas_toDataURL br of Inl e \<Rightarrow> units ''no_canvas'' | Inr url \<Rightarrow> url]
      in andThen (btoa (join_bar components')) (\<lambda>encoded. Inr (take 32 encoded)))"

text \<open>The object \<open>checkBlacklist\<close> returns: \<open>{blocked, reason}\<close>, \<open>reason\<close> being \<open>null\<close> or a string.\<close>

record check_result =
  blocked :: bool
  reason :: "string option"

text \<open>
  \<open>checkBlacklist()\<close>, lines 83-119, in the browser \<open>br\<close>. \<open>ck\<close> holds the clock
  readings of \<open>recordFailedAttempt\<close> and \<open>now\<close> is the reading of
  \<open>isClientBlacklisted\<close>. Each \<open>for\<close> loop leaves the function at the first entry of
  its list the user agent includes. \<open>this.recordFailedAttempt(reason)\<close> is
  \<open>getClientIdentifier\<close> (line 175) followed by the rest of \<open>recordFailedAttempt\<close>.
\<close>

definition checkBlacklist ::
  "state \<Rightarrow> browser \<Rightarrow> clock \<Rightarrow> int \<Rightarrow> exn + (check_result \<times> state)" where
  "checkBlacklist st br ck now =
     (let userAgent = toLowerCase (engine_toLowerCase br) (navigator_userAgent br) in
      if list_ex (\<lambda>botSignature. includes_str userAgent (units botSignature))
           knownBotSignatures
      then andThen (getClientIdentifier br) (\<lambda>clientId.
           andThen (recordFailedAttempt st clientId ''known_bot_useragent'' ck) (\<lambda>st'.
             Inr (\<lparr>blocked = True, reason = Some ''known_bot''\<rparr>, st')))
      else if list_ex (\<lambda>tool. includes_str userAgent (units tool)) securityTools
      then andThen (getClientIdentifier br) (\<lambda>clientId.
           andThen (recordFailedAttempt st clientId ''security_tool_detected'' ck) (\<lambda>st'.
             Inr (\<lparr>blocked = True, reason = Some ''security_tool''\<rparr>, st')))
      else andThen (getClientIdentifier br) (\<lambda>clientFingerprint.
           andThen (isClientBlacklisted (localStorage st) clientFingerprint now) (\<lambda>listed.
             if listed
             then Inr (\<lparr>blocked = True, reason = Some ''blacklisted''\<rparr>, st)
             else Inr (\<lparr>blocked = False, reason = None\<rparr>, st))))"

section \<open>Suspicious-pattern score\<close>

text \<open>The flags of \<open>suspiciousPatterns\<close>, lines 40-54; all are \<open>true\<close>.\<close>

record patterns =
  noFonts :: bool
  noCanvas :: bool
  noWebGL :: bool
  mismatchedUA :: bool
  spoofedLanguages :: bool
  noStorage :: bool
  inconsistentFeatures :: bool
  tooBluetooth :: bool
  tooNetwork :: bool
  tamperedDOM :: bool
  perfectConsistency :: bool
  allPluginsDisabled :: bool
  unusualTimezone :: bool

definition suspiciousPatterns :: patterns where
  "suspiciousPatterns =
     \<lparr>noFonts = True, noCanvas = True, noWebGL = True, mismatchedUA = True,
      spoofedLanguages = True, noStorage = True, inconsistentFeatures = True,
      tooBluetooth = True, tooNetwork = True, tamperedDOM = True,
      perfectConsistency = True, allPluginsDisabled = True, unusualTimezone = True\<rparr>"

text \<open>
  The fields of the fingerprint object that \<open>collectFingerprintComponents\<close> fills by
  calling a probe, of which \<open>hasTooManySuspiciousPatterns\<close> reads four. A field that may
  be \<open>null\<close> or missing is an option.
\<close>

record components =
  timezoneStr :: string
  localStorage_flag :: bool
  sessionStorage_flag :: bool
  indexedDB_flag :: bool
  audioCodecs :: "string list"
  videoCodecs :: "string list"
  webglVendor :: "string option"
  webglRenderer :: "string option"
  canvasHash :: string
  fonts :: "string list option"
  batteryInfo :: "string option"
  connectionType :: "string option"
  plugins :: "string list"
  performanceMetrics :: "rat \<times> rat"
  adBlocker :: bool

text \<open>\<open>!s\<close> for a value that is \<open>null\<close> or a string: the empty string is falsy too.\<close>

definition falsy :: "string option \<Rightarrow> bool" where
  "falsy s = (s = None \<or> s = Some [])"

text \<open>The conditions of the \<open>if\<close> statements of lines 301-365, in the order of the source.\<close>

definition fonts_check :: "components \<Rightarrow> bool" where
  "fonts_check fingerprint =
     (noFonts suspiciousPatterns \<and>
      (case fonts fingerprint of None \<Rightarrow> True | Some fs \<Rightarrow> length fs < 2))"

definition canvas_check :: "components \<Rightarrow> bool" where
  "canvas_check fingerprint =
     (noCanvas suspiciousPatterns \<and> canvasHash fingerprint = ''canvas_not_supported'')"

definition webgl_check :: "components \<Rightarrow> bool" where
  "webgl_check fingerprint =
     (noWebGL suspiciousPatterns \<and>
      falsy (webglVendor fingerprint) \<and> falsy (webglRenderer fingerprint))"

definition chrome_check :: "browser \<Rightarrow> bool" where
  "chrome_check br =
     (includes_str (toLowerCase (engine_toLowerCase br) (navigator_userAgent br))
        (units ''chrome'') \<and>
      \<not> window_chrome_defined br)"

definition firefox_check :: "browser \<Rightarrow> bool" where
  "firefox_check br =
     (includes_str (toLowerCase (engine_toLowerCase br) (navigator_userAgent br))
        (units ''firefox'') \<and>
      \<not> window_InstallTrigger_defined br)"

definition languages_check :: "browser \<Rightarrow> bool" where
  "languages_check br =
     (spoofedLanguages suspiciousPatterns \<and>
      (case navigator_languages br of None \<Rightarrow> True | Some ls \<Rightarrow> length ls = 0))"

text \<open>
  Lines 345-346: \<open>&&\<close> and \<open>||\<close> read from left to right and stop as soon as the
  value is settled; a getter that throws ends the function.
\<close>

definition storage_check :: "browser \<Rightarrow> exn + bool" where
  "storage_check br =
     (if \<not> noStorage suspiciousPatterns then Inr False
      else andThen (window_localStorage br) (\<lambda>local.
             if \<not> local then Inr True
             else andThen (window_sessionStorage br) (\<lambda>session. Inr (\<not> session))))"

definition pixelRatio_check :: "browser \<Rightarrow> bool" where
  "pixelRatio_check br =
     (case window_devicePixelRatio br of
        None \<Rightarrow> False
      | Some r \<Rightarrow> r \<noteq> 0 \<and> r - of_int \<lfloor>r\<rfloor> = 0)"

definition plugins_check :: "browser \<Rightarrow> bool" where
  "plugins_check br =
     (allPluginsDisabled suspiciousPatterns \<and>
      (case navigator_plugins_length br of None \<Rightarrow> False | Some n \<Rightarrow> n = 0))"

text \<open>
  The body of \<open>hasTooManySuspiciousPatterns\<close> up to its \<open>return\<close>: the values of
  \<open>suspiciousCount\<close> and \<open>totalChecks\<close> after each block, lines 297-366. Only the
  storage block can throw.
\<close>

definition suspicious_score :: "components \<Rightarrow> browser \<Rightarrow> exn + rat \<times> nat" where
  "suspicious_score fingerprint br =
     (let c0 = (0 :: rat); t0 = (0 :: nat);
          c1 = (if fonts_check fingerprint then c0 + 1 else c0); t1 = t0 + 1;
          c2 = (if canvas_check fingerprint then c1 + 1 else c1); t2 = t1 + 1;
          c3 = (if webgl_check fingerprint then c2 + 1 else c2); t3 = t2 + 1;
          c4 = (if mismatchedUA suspiciousPatterns
                then (let a = (if chrome_check br then c3 + 1 else c3)
                      in if firefox_check br then a + 1 else a)
                else c3); t4 = t3 + 1;
          c5 = (if languages_check br then c4 + 1 else c4); t5 = t4 + 1
      in andThen (storage_check br) (\<lambda>storage_missing.
           let c6 = (if storage_missing then c5 + 1 else c5); t6 = t5 + 1;
               c7 = (if perfectConsistency suspiciousPatterns
                     then (if pixelRatio_check br then c6 + 1 / 2 else c6)
                     else c6); t7 = t6 + 1;
               c8 = (if plugins_check br then c7 + 1 else c7); t8 = t7 + 1
           in Inr (c8, t8)))"

text \<open>\<open>return (suspiciousCount / totalChecks) > 0.4\<close>, line 369.\<close>

definition hasTooManySuspiciousPatterns :: "components \<Rightarrow> browser \<Rightarrow> exn + bool" where
  "hasTooManySuspiciousPatterns fingerprint br =
     andThen (suspicious_score fingerprint br) (\<lambda>score.
       case score of
         (suspiciousCount, totalChecks) \<Rightarrow>
           Inr (suspiciousCount / of_nat totalChecks > 4 / 10))"

text \<open>
  The eight check slots, a slot counting as triggered when its block adds to
  \<open>suspiciousCount\<close>; the user-agent slot holds two tests and can add two points.
\<close>

definition triggered_checks :: "components \<Rightarrow> browser \<Rightarrow> bool list" where
  "triggered_checks fingerprint br =
     [fonts_check fingerprint, canvas_check fingerprint, webgl_check fingerprint,
      chrome_check br \<or> firefox_check br, languages_check br,
      storage_check br = Inr True, pixelRatio_check br, plugins_check br]"

section \<open>Interaction analysis\<close>

text \<open>An element of \<open>movementPatterns\<close> and the \<open>interactionData\<close> object, lines 479-487.\<close>

record movement =
  velocity :: rat
  direction :: rat

record interaction_data =
  mouseMoves :: nat
  mouseClicks :: nat
  keyPresses :: nat
  touchEvents :: nat
  movementPatterns :: "movement list"
  lastPosition :: "(int \<times> int \<times> int) option"
  startTime :: int

text \<open>
  The \<open>for (const pattern of ...)\<close> loop of lines 554-567; the triple is
  \<open>unnaturalMovements\<close>, \<open>prevVelocity\<close> and \<open>prevDirection\<close>, with \<open>None\<close> for \<open>null\<close>.
\<close>

fun movement_loop :: "movement list \<Rightarrow> nat \<times> rat option \<times> rat option \<Rightarrow> nat" where
  "movement_loop [] (unnaturalMovements, prevVelocity, prevDirection) = unnaturalMovements"
| "movement_loop (pattern # ps) (unnaturalMovements, prevVelocity, prevDirection) =
     (let u1 = (if prevVelocity = Some (velocity pattern)
                then unnaturalMovements + 1 else unnaturalMovements);
          u2 = (if prevDirection = Some (direction pattern) then u1 + 1 else u1)
      in movement_loop ps (u2, Some (velocity pattern), Some (direction pattern)))"

text \<open>\<open>analyzeInteractions(interactionData)\<close>, lines 534-576; \<open>now\<close> is \<open>Date.now()\<close>.\<close>

definition analyzeInteractions :: "interaction_data \<Rightarrow> int \<Rightarrow> bool" where
  "analyzeInteractions interactionData now =
     (let timeDiff = now - startTime interactionData;
          totalInteractions = mouseMoves interactionData + mouseClicks interactionData +
            keyPresses interactionData + touchEvents interactionData
      in if timeDiff > 2000 \<and> totalInteractions < 3 then False
         else if length (movementPatterns interactionData) > 5
         then (let unnaturalMovements =
                     movement_loop (movementPatterns interactionData) (0, None, None)
               in if (of_nat unnaturalMovements :: rat)
                     / of_nat (length (movementPatterns interactionData)) > 3 / 10
                  then False
                  else True)
         else True)"

text \<open>
  The numbers of consecutive samples that repeat the velocity, and the direction, of the
  sample before them.
\<close>

definition equal_velocity_pairs :: "movement list \<Rightarrow> nat" where
  "equal_velocity_pairs ps =
     length (filter (\<lambda>(a, b). velocity a = velocity b) (zip ps (tl ps)))"

definition equal_direction_pairs :: "movement list \<Rightarrow> nat" where
  "equal_direction_pairs ps =
     length (filter (\<lambda>(a, b). direction a = direction b) (zip ps (tl ps)))"

text \<open>
  The fraction the specification describes: the consecutive pairs that agree in velocity
  or in direction, among all consecutive pairs.
\<close>

definition spec_uniform_fraction :: "movement list \<Rightarrow> rat" where
  "spec_uniform_fraction ps =
     of_nat (length (filter (\<lambda>(a, b). velocity a = velocity b \<or> direction a = direction b)
                       (zip ps (tl ps))))
     / of_nat (length ps - 1)"

section \<open>Signal collection (src/js/fingerprint.js)\<close>

text \<open>
  What the browser answers to the probes. \<open>detectAudioCodecs\<close>, \<open>detectVideoCodecs\<close>,
  \<open>detectFonts\<close>, \<open>benchmarkPerformance\<close>, \<open>detectAdBlocker\<close>, the \<open>Intl\<close> call of
  line 75 and the reads of \<open>window.localStorage\<close>, \<open>window.sessionStorage\<close> and
  \<open>window.indexedDB\<close> of lines 80-82 have no \<open>try\<close> around them, so the environment
  gives the outcome of the whole call or read: its value (for a storage property, whether
  it is truthy), or the exception it throws. For the probes that have a \<open>try\<close>, the
  environment gives the outcome of the calls inside it.
\<close>

record environment =
  Intl_timeZone :: "exn + string"
  read_localStorage :: "exn + bool"
  read_sessionStorage :: "exn + bool"
  read_indexedDB :: "exn + bool"
  detectAudioCodecs :: "exn + string list"
  detectVideoCodecs :: "exn + string list"
  canvas_digest :: "exn + string"
  detectFonts :: "exn + string list"
  navigator_getBattery :: "(exn + string) option"
  navigator_connection :: "exn + string option"
  navigator_plugins :: "(exn + string) list option"
  benchmarkPerformance :: "exn + rat \<times> rat"
  webgl_getContext :: "exn + bool"
  webgl_getExtension :: "exn + bool"
  webgl_vendor :: "exn + string option"
  webgl_renderer :: "exn + string option"
  detectAdBlocker :: "exn + bool"

text \<open>
  \<open>generateCanvasFingerprint()\<close>, lines 135-195: \<open>canvas_digest\<close> is the outcome of the
  drawing and hashing inside the \<open>try\<close>.
\<close>

definition generateCanvasFingerprint :: "environment \<Rightarrow> exn + string" where
  "generateCanvasFingerprint env =
     try_catch (canvas_digest env) (\<lambda>e. Inr ''canvas_not_supported'')"

text \<open>
  \<open>getWebGLInfo()\<close>, lines 264-286; the pair is \<open>{vendor, renderer}\<close>. \<open>webgl_getContext\<close>
  and \<open>webgl_getExtension\<close> tell whether the call returned an object.
\<close>

definition getWebGLInfo :: "environment \<Rightarrow> exn + (string option \<times> string option)" where
  "getWebGLInfo env =
     try_catch
       (andThen (webgl_getContext env) (\<lambda>gl.
          if \<not> gl then Inr (None, None)
          else andThen (webgl_getExtension env) (\<lambda>debugInfo.
            if \<not> debugInfo then Inr (None, None)
            else andThen (webgl_vendor env) (\<lambda>vendor.
                 andThen (webgl_renderer env) (\<lambda>renderer.
                   Inr (vendor, renderer))))))
       (\<lambda>e. Inr (None, None))"

text \<open>\<open>getBatteryInfo()\<close>, lines 293-309.\<close>

definition getBatteryInfo :: "environment \<Rightarrow> exn + string option" where
  "getBatteryInfo env =
     try_catch
       (case navigator_getBattery env of
          None \<Rightarrow> Inr None
        | Some answer \<Rightarrow> andThen answer (\<lambda>battery. Inr (Some battery)))
       (\<lambda>e. Inr None)"

text \<open>\<open>getConnectionType()\<close>, lines 315-336.\<close>

definition getConnectionType :: "environment \<Rightarrow> exn + string option" where
  "getConnectionType env = try_catch (navigator_connection env) (\<lambda>e. Inr None)"

text \<open>
  \<open>getPluginsInfo()\<close>, lines 343-375: the loop pushes plugin after plugin, and an
  exception ends it with the plugins pushed so far.
\<close>

fun plugins_loop :: "(exn + string) list \<Rightarrow> string list \<Rightarrow> string list" where
  "plugins_loop [] acc = acc"
| "plugins_loop (Inl e # ps) acc = acc"
| "plugins_loop (Inr pluginInfo # ps) acc = plugins_loop ps (acc @ [pluginInfo])"

definition getPluginsInfo :: "environment \<Rightarrow> exn + string list" where
  "getPluginsInfo env =
     (case navigator_plugins env of
        None \<Rightarrow> Inr []
      | Some ps \<Rightarrow> if length ps = 0 then Inr [] else Inr (plugins_loop ps []))"

text \<open>
  \<open>collectFingerprintComponents()\<close>, lines 58-128: the object literal calls the probes in
  the order of its fields, then the WebGL block and the ad-blocker probe follow. A
  rejected promise is \<open>Inl\<close>.
\<close>

definition collectFingerprintComponents :: "environment \<Rightarrow> exn + components" where
  "collectFingerprintComponents env =
     andThen (Intl_timeZone env) (\<lambda>tz.
     andThen (read_localStorage env) (\<lambda>hasLocal.
     andThen (read_sessionStorage env) (\<lambda>hasSession.
     andThen (read_indexedDB env) (\<lambda>hasIndexed.
     andThen (detectAudioCodecs env) (\<lambda>audio.
     andThen (detectVideoCodecs env) (\<lambda>video.
     andThen (generateCanvasFingerprint env) (\<lambda>canvas.
     andThen (detectFonts env) (\<lambda>detectedFonts.
     andThen (getBatteryInfo env) (\<lambda>battery.
     andThen (getConnectionType env) (\<lambda>connection.
     andThen (getPluginsInfo env) (\<lambda>pluginList.
     andThen (benchmarkPerformance env) (\<lambda>metrics.
       let components =
             \<lparr>timezoneStr = tz, localStorage_flag = hasLocal,
              sessionStorage_flag = hasSession, indexedDB_flag = hasIndexed,
              audioCodecs = audio, videoCodecs = video,
              webglVendor = None, webglRenderer = None, canvasHash = canvas,
              fonts = Some detectedFonts, batteryInfo = battery,
              connectionType = connection, plugins = pluginList,
              performanceMetrics = metrics, adBlocker = False\<rparr>
       in andThen
            (try_catch
               (andThen (getWebGLInfo env) (\<lambda>webglInfo.
                  Inr (components\<lparr>webglVendor := fst webglInfo,
                                  webglRenderer := snd webglInfo\<rparr>)))
               (\<lambda>e. Inr components)) (\<lambda>components'.
          andThen (detectAdBlocker env) (\<lambda>blocked_ads.
            Inr (components'\<lparr>adBlocker := blocked_ads\<rparr>)))))))))))))))"

section \<open>Concrete inputs\<close>

text \<open>A storage that can be read and written and holds nothing yet, and one whose blacklist
  key holds text that is not JSON.\<close>

definition empty_storage :: storage where
  "empty_storage =
     \<lparr>readable = True, writable = True, captcha_blacklist = Missing,
      captcha_failed_attempts = Missing\<rparr>"

definition garbled_storage :: storage where
  "garbled_storage = empty_storage\<lparr>captcha_blacklist := Garbled\<rparr>"

text \<open>A clock whose four readings are all \<open>t\<close>, and one that ticks before the last.\<close>

definition steady_clock :: "int \<Rightarrow> clock" where
  "steady_clock t =
     \<lparr>firstAttempt_now = t, timestamp_now = t, added_now = t, expires_now = t\<rparr>"


text \<open>The object as the script creates it, over a given storage.\<close>

definition fresh_state :: "storage \<Rightarrow> state" where
  "fresh_state ls = \<lparr>blacklistedIPs = [], failedAttempts = [], localStorage = ls\<rparr>"

text \<open>A storage in which an earlier page load saved two failed attempts of client \<open>''id''\<close>.\<close>

definition two_attempts_storage :: storage where
  "two_attempts_storage =
     empty_storage\<lparr>captcha_failed_attempts := Stored
       [(''id'', \<lparr>count = 2,
                  attempt_reasons = [\<lparr>entry_reason = ''honeypot_filled'', entry_timestamp = 10\<rparr>,
                                     \<lparr>entry_reason = ''honeypot_filled'', entry_timestamp = 20\<rparr>],
                  firstAttempt = 10\<rparr>)]\<rparr>"

text \<open>A storage whose blacklist holds one entry for client \<open>''id''\<close>, expiring at \<open>t\<close>.\<close>

definition listed_storage :: "int \<Rightarrow> storage" where
  "listed_storage t =
     empty_storage\<lparr>captcha_blacklist := Stored
       [(''id'', \<lparr>added = 0, expires = t, reasons = []\<rparr>)]\<rparr>"

text \<open>Six movement samples of which only the first two agree, and six that all agree.\<close>

definition one_repeat :: "movement list" where
  "one_repeat =
     [\<lparr>velocity = 1, direction = 1\<rparr>, \<lparr>velocity = 1, direction = 1\<rparr>,
      \<lparr>velocity = 2, direction = 2\<rparr>, \<lparr>velocity = 3, direction = 3\<rparr>,
      \<lparr>velocity = 4, direction = 4\<rparr>, \<lparr>velocity = 5, direction = 5\<rparr>]"

definition busy_visitor :: "movement list \<Rightarrow> interaction_data" where
  "busy_visitor ps =
     \<lparr>mouseMoves = 7, mouseClicks = 0, keyPresses = 0, touchEvents = 0,
      movementPatterns = ps, lastPosition = None, startTime = 0\<rparr>"

text \<open>
  A browser in which every probe answers, one in which \<open>detectFonts\<close> throws, and one
  that refuses storage.
\<close>

definition answering_browser :: environment where
  "answering_browser =
     \<lparr>Intl_timeZone = Inr ''UTC'', read_localStorage = Inr True,
      read_sessionStorage = Inr True, read_indexedDB = Inr True,
      detectAudioCodecs = Inr [], detectVideoCodecs = Inr [],
      canvas_digest = Inl SecurityError, detectFonts = Inr [''Arial''],
      navigator_getBattery = None, navigator_connection = Inr None,
      navigator_plugins = None, benchmarkPerformance = Inr (1, 1),
      webgl_getContext = Inr False, webgl_getExtension = Inr False,
      webgl_vendor = Inr None, webgl_renderer = Inr None, detectAdBlocker = Inr False\<rparr>"

definition bodyless_browser :: environment where
  "bodyless_browser = answering_browser\<lparr>detectFonts := Inl TypeError\<rparr>"

definition refusing_browser :: environment where
  "refusing_browser = answering_browser\<lparr>read_localStorage := Inl SecurityError\<rparr>"

text \<open>A fingerprint and a browser that trigger none of the checks, to be varied.\<close>

definition plain_fingerprint :: components where
  "plain_fingerprint =
     \<lparr>timezoneStr = ''UTC'', localStorage_flag = True, sessionStorage_flag = True,
      indexedDB_flag = True, audioCodecs = [], videoCodecs = [],
      webglVendor = Some ''Intel'', webglRenderer = Some ''Iris'', canvasHash = ''ab12'',
      fonts = Some [''Arial'', ''Courier'', ''Georgia''], batteryInfo = None,
      connectionType = None, plugins = [''pdf''], performanceMetrics = (1, 1),
      adBlocker = False\<rparr>"

definition plain_browser :: browser where
  "plain_browser =
     \<lparr>navigator_userAgent = units ''Mozilla/5.0 (X11; Linux x86_64)'',
      navigator_language = units ''en'', screen_size = units ''1920x1080'',
      navigator_hardwareConcurrency = units ''8'', navigator_deviceMemory = units ''8'',
      navigator_platform = units ''Linux x86_64'', navigator_vendor = [],
      canvas_toDataURL = Inl TypeError, engine_toLowerCase = map toLowerCase_unit,
      window_chrome_defined = False, window_InstallTrigger_defined = False,
      navigator_languages = Some [''en''], window_localStorage = Inr True,
      window_sessionStorage = Inr True, window_devicePixelRatio = Some (3 / 2),
      navigator_plugins_length = Some 1\<rparr>"

text \<open>A storage whose blacklist holds one entry, for the client \<open>cid\<close>, expiring at \<open>t\<close>.\<close>

definition blacklisting :: "string \<Rightarrow> int \<Rightarrow> storage" where
  "blacklisting cid t =
     empty_storage\<lparr>captcha_blacklist := Stored
       [(cid, \<lparr>added = 0, expires = t, reasons = []\<rparr>)]\<rparr>"

section \<open>Sequencing and the storage operations, evaluated\<close>

lemma andThen_simps [simp]:
  "andThen (Inr v) f = f v"
  "andThen (Inl e) f = Inl e"
  by (simp_all add: andThen_def)

lemma try_catch_simps [simp]:
  "try_catch (Inr v) h = Inr v"
  "try_catch (Inl e) h = h e"
  by (simp_all add: try_catch_def)

lemma read_captcha_blacklist_eq:
  "read_captcha_blacklist ls =
     (if \<not> readable ls then Inl SecurityError
      else case captcha_blacklist ls of
             Missing \<Rightarrow> Inr [] | Garbled \<Rightarrow> Inl SyntaxError | Stored v \<Rightarrow> Inr v)"
  by (simp add: read_captcha_blacklist_def getItem_def JSON_parse_or_empty_def)

lemma saveFailedAttempts_eq:
  "saveFailedAttempts st =
     Inr (if writable (localStorage st)
          then st\<lparr>localStorage :=
                  (localStorage st)\<lparr>captcha_failed_attempts := Stored (failedAttempts st)\<rparr>\<rparr>
          else st)"
  by (simp add: saveFailedAttempts_def setItem_captcha_failed_attempts_def)

lemma addToBlacklist_eq:
  "addToBlacklist st clientId rs ta te =
     Inr (case read_captcha_blacklist (localStorage st) of
            Inl e \<Rightarrow> st
          | Inr bl \<Rightarrow>
              if writable (localStorage st)
              then st\<lparr>blacklistedIPs := blacklistedIPs st @ [clientId],
                      localStorage := (localStorage st)\<lparr>captcha_blacklist :=
                        Stored (AList.update clientId
                          \<lparr>added = ta, expires = te + blacklistDuration * 1000,
                           reasons = rs\<rparr> bl)\<rparr>\<rparr>
              else st)"
  by (simp add: addToBlacklist_def setItem_captcha_blacklist_def split: sum.splits)

lemma recordFailedAttempt_total:
  "\<exists>st'. recordFailedAttempt st clientId why ck = Inr st'"
  by (simp add: recordFailedAttempt_def Let_def saveFailedAttempts_eq addToBlacklist_eq)

lemmas store_eval =
  recordFailedAttempt_def Let_def saveFailedAttempts_eq addToBlacklist_eq
  read_captcha_blacklist_eq maxFailedAttempts_def blacklistDuration_def

section \<open>Escalation of failed attempts\<close>

lemma count_bump_neq:
  "r\<lparr>count := Suc (count r), attempt_reasons := x\<rparr> \<noteq> (r :: failed_attempt)"
proof
  assume "r\<lparr>count := Suc (count r), attempt_reasons := x\<rparr> = r"
  then have "count (r\<lparr>count := Suc (count r), attempt_reasons := x\<rparr>) = count r"
    by (rule arg_cong)
  then show False by simp
qed

lemma recordFailedAttempt_changes:
  assumes "recordFailedAttempt st clientId why ck = Inr st'"
  shows "map_of (failedAttempts st') clientId \<noteq> map_of (failedAttempts st) clientId"
  using assms
  by (auto simp: recordFailedAttempt_def Let_def saveFailedAttempts_eq addToBlacklist_eq
      update_conv' delete_conv' maxFailedAttempts_def count_bump_neq
      split: option.splits sum.splits if_splits)







section \<open>Storage failures\<close>

text \<open>
  Claim C8. When reading the storage throws, or the blacklist key holds text that is not
  JSON, \<open>isClientBlacklisted\<close> returns \<open>false\<close> and \<open>loadBlacklist\<close> returns with
  \<open>blacklistedIPs\<close> empty; neither raises (the result is \<open>Inr\<close>).
\<close>

theorem storage_failure_degrades:
  assumes "\<not> readable (localStorage st) \<or> captcha_blacklist (localStorage st) = Garbled"
  shows "isClientBlacklisted (localStorage st) clientId now = Inr False
       \<and> loadBlacklist st = Inr (st\<lparr>blacklistedIPs := []\<rparr>)"
  using assms
  by (auto simp: isClientBlacklisted_def loadBlacklist_def read_captcha_blacklist_eq)

text \<open>
  The degradation at a garbled storage and at an unreadable one.
\<close>

theorem storage_failure_degrades_witness:
  "captcha_blacklist (localStorage (fresh_state garbled_storage)) = Garbled
   \<and> isClientBlacklisted garbled_storage ''id'' 5 = Inr False
   \<and> loadBlacklist (fresh_state garbled_storage) = Inr (fresh_state garbled_storage)
   \<and> isClientBlacklisted (empty_storage\<lparr>readable := False\<rparr>) ''id'' 5 = Inr False"
proof -
  have h: "\<not> readable (localStorage (fresh_state garbled_storage))
      \<or> captcha_blacklist (localStorage (fresh_state garbled_storage)) = Garbled"
    by (simp add: fresh_state_def garbled_storage_def)
  have h': "\<not> readable (localStorage (fresh_state (empty_storage\<lparr>readable := False\<rparr>)))
      \<or> captcha_blacklist (localStorage (fresh_state (empty_storage\<lparr>readable := False\<rparr>)))
          = Garbled"
    by (simp add: fresh_state_def)
  from storage_failure_degrades [OF h, of "''id''" 5]
    storage_failure_degrades [OF h', of "''id''" 5]
  show ?thesis
    by (simp add: fresh_state_def garbled_storage_def)
qed

section \<open>Page loads\<close>

lemma loadBlacklist_eq:
  "loadBlacklist st =
     Inr (st\<lparr>blacklistedIPs :=
            (case read_captcha_blacklist (localStorage st) of
               Inl e \<Rightarrow> [] | Inr bl \<Rightarrow> map fst bl)\<rparr>)"
  by (cases "read_captcha_blacklist (localStorage st)") (simp_all add: loadBlacklist_def)

lemma cleanupExpiredEntries_total:
  "\<exists>st'. cleanupExpiredEntries st now = Inr st' \<and> failedAttempts st' = failedAttempts st"
  by (cases "read_captcha_blacklist (localStorage st)")
     (auto simp: cleanupExpiredEntries_def setItem_captcha_blacklist_def split: prod.splits)

lemma page_load_forgets: "\<exists>st. page_load ls now = Inr st \<and> failedAttempts st = []"
  using cleanupExpiredEntries_total
    [of "\<lparr>blacklistedIPs = (case read_captcha_blacklist ls of
                                 Inl e \<Rightarrow> [] | Inr bl \<Rightarrow> map fst bl),
           failedAttempts = [], localStorage = ls\<rparr>" now]
  by (simp add: page_load_def init_def loadBlacklist_eq)

text \<open>
  Claim C2 at a failing input. The storage holds a record of two failed attempts of client
  \<open>''id''\<close> from an earlier page load. The new page load runs \<open>init\<close>, which leaves
  \<open>failedAttempts\<close> empty (\<open>loadFailedAttempts\<close> is never called), so the next
  \<open>recordFailedAttempt\<close> counts from one, does not escalate, and overwrites the stored
  record.
\<close>

theorem failed_attempts_not_reloaded:
  "page_load two_attempts_storage 100 = Inr (fresh_state two_attempts_storage)
   \<and> recordFailedAttempt (fresh_state two_attempts_storage) ''id'' ''honeypot_filled''
       (steady_clock 100)
     = Inr \<lparr>blacklistedIPs = [],
            failedAttempts =
              [(''id'', \<lparr>count = 1,
                 attempt_reasons = [\<lparr>entry_reason = ''honeypot_filled'', entry_timestamp = 100\<rparr>],
                 firstAttempt = 100\<rparr>)],
            localStorage = empty_storage\<lparr>captcha_failed_attempts := Stored
              [(''id'', \<lparr>count = 1,
                 attempt_reasons = [\<lparr>entry_reason = ''honeypot_filled'', entry_timestamp = 100\<rparr>],
                 firstAttempt = 100\<rparr>)]\<rparr>\<rparr>"
  by (simp add: store_eval page_load_def init_def loadBlacklist_def cleanupExpiredEntries_def
      two_attempts_storage_def empty_storage_def steady_clock_def fresh_state_def)

section \<open>Expiry\<close>

lemma cleanup_loop_lookup:
  "map_of (fst (cleanup_loop ks now (bl, ch))) k =
     (case map_of bl k of
        None \<Rightarrow> None
      | Some e \<Rightarrow> if k \<in> set ks \<and> expires e < now then None else Some e)"
  by (induction ks arbitrary: bl ch) (auto simp: delete_conv' split: option.splits)

lemma cleanup_loop_changed:
  "snd (cleanup_loop ks now (bl, ch)) =
     (ch \<or> list_ex (\<lambda>k. case map_of bl k of None \<Rightarrow> False | Some e \<Rightarrow> expires e < now) ks)"
proof (induction ks arbitrary: bl ch)
  case Nil
  show ?case by simp
next
  case (Cons a ks)
  show ?case
  proof (cases "map_of bl a")
    case None
    then show ?thesis by (simp add: Cons.IH)
  next
    case (Some e)
    then show ?thesis by (simp add: Cons.IH)
  qed
qed

lemma isClientBlacklisted_eq:
  "isClientBlacklisted ls clientId now =
     Inr (case read_captcha_blacklist ls of
            Inl e \<Rightarrow> False
          | Inr bl \<Rightarrow> (case map_of bl clientId of
                         None \<Rightarrow> False | Some entry \<Rightarrow> expires entry > now))"
  by (cases "read_captcha_blacklist ls")
     (simp_all add: isClientBlacklisted_def split: option.splits)

text \<open>
  Claim C3, as the code has it. For an entry the blacklist in storage holds for the
  client: when \<open>expires \<le> now\<close>, \<open>isClientBlacklisted\<close> returns \<open>false\<close>; when
  \<open>expires < now\<close> and the storage can be written, \<open>cleanupExpiredEntries\<close> stores a
  blacklist without the entry.
\<close>

theorem expired_entry_excluded_and_swept:
  assumes "read_captcha_blacklist (localStorage st) = Inr bl"
    and "map_of bl clientId = Some e"
  shows "(expires e \<le> now \<longrightarrow> isClientBlacklisted (localStorage st) clientId now = Inr False)
       \<and> (expires e < now \<and> writable (localStorage st) \<longrightarrow>
            (\<exists>st' bl'. cleanupExpiredEntries st now = Inr st'
               \<and> read_captcha_blacklist (localStorage st') = Inr bl'
               \<and> map_of bl' clientId = None))"
proof (intro conjI impI)
  assume "expires e \<le> now"
  with assms show "isClientBlacklisted (localStorage st) clientId now = Inr False"
    by (simp add: isClientBlacklisted_eq)
next
  assume a: "expires e < now \<and> writable (localStorage st)"
  from assms(1) have rd: "readable (localStorage st)"
    by (auto simp: read_captcha_blacklist_eq split: if_splits)
  from assms(2) have mem: "clientId \<in> set (map fst bl)"
    by (metis map_of_eq_None_iff option.distinct(1) set_map)
  obtain bl' changed where loop: "cleanup_loop (map fst bl) now (bl, False) = (bl', changed)"
    by (cases "cleanup_loop (map fst bl) now (bl, False)")
  from cleanup_loop_lookup [of "map fst bl" now bl False clientId] loop assms(2) a mem
  have gone: "map_of bl' clientId = None"
    by simp
  have "list_ex (\<lambda>k. case map_of bl k of None \<Rightarrow> False | Some e \<Rightarrow> expires e < now)
          (map fst bl)"
    unfolding list_ex_iff using mem assms(2) a
    by (intro bexI [of _ clientId]) simp_all
  with cleanup_loop_changed [of "map fst bl" now bl False] loop
  have ch: "changed"
    by simp
  from assms(1) loop ch a rd
  have "cleanupExpiredEntries st now =
          Inr (st\<lparr>blacklistedIPs := map fst bl',
                  localStorage := (localStorage st)\<lparr>captcha_blacklist := Stored bl'\<rparr>\<rparr>)"
    by (simp add: cleanupExpiredEntries_def setItem_captcha_blacklist_def)
  with gone rd show "\<exists>st' bl'. cleanupExpiredEntries st now = Inr st'
               \<and> read_captcha_blacklist (localStorage st') = Inr bl'
               \<and> map_of bl' clientId = None"
    by (simp add: read_captcha_blacklist_eq)
qed

text \<open>
  An entry that expires at 100: not blacklisted at 100, swept at 101.
\<close>

theorem expired_entry_excluded_and_swept_witness:
  "read_captcha_blacklist (localStorage (fresh_state (listed_storage 100)))
     = Inr [(''id'', \<lparr>added = 0, expires = 100, reasons = []\<rparr>)]
   \<and> isClientBlacklisted (listed_storage 100) ''id'' 100 = Inr False
   \<and> (\<exists>st' bl'. cleanupExpiredEntries (fresh_state (listed_storage 100)) 101 = Inr st'
         \<and> read_captcha_blacklist (localStorage st') = Inr bl'
         \<and> map_of bl' ''id'' = None)"
proof -
  have h1: "read_captcha_blacklist (localStorage (fresh_state (listed_storage 100)))
     = Inr [(''id'', \<lparr>added = 0, expires = 100, reasons = []\<rparr>)]"
    by (simp add: store_eval listed_storage_def empty_storage_def fresh_state_def)
  have h2: "map_of [(''id'', \<lparr>added = 0, expires = 100, reasons = []\<rparr>)] ''id''
     = Some \<lparr>added = 0, expires = 100, reasons = []\<rparr>"
    by simp
  have h3: "writable (localStorage (fresh_state (listed_storage 100)))"
    by (simp add: listed_storage_def empty_storage_def fresh_state_def)
  from expired_entry_excluded_and_swept [OF h1 h2, of 100]
    expired_entry_excluded_and_swept [OF h1 h2, of 101] h1 h3
  show ?thesis
    by (simp add: fresh_state_def)
qed

text \<open>
  Claim C3 as stated fails at two inputs. At \<open>now = expires\<close> the entry no longer
  blacklists the client, and \<open>cleanupExpiredEntries\<close> leaves it in storage (its test is
  \<open>expires < now\<close>). And when the storage refuses writes, an entry expired long ago
  stays as well.
\<close>

theorem expired_entry_excluded_and_swept_counterexample:
  "isClientBlacklisted (listed_storage 100) ''id'' 100 = Inr False
   \<and> cleanupExpiredEntries (fresh_state (listed_storage 100)) 100
       = Inr (fresh_state (listed_storage 100))
   \<and> cleanupExpiredEntries (fresh_state ((listed_storage 100)\<lparr>writable := False\<rparr>)) 200
       = Inr (fresh_state ((listed_storage 100)\<lparr>writable := False\<rparr>))
   \<and> captcha_blacklist (listed_storage 100)
       = Stored [(''id'', \<lparr>added = 0, expires = 100, reasons = []\<rparr>)]"
  by (simp add: store_eval cleanupExpiredEntries_def setItem_captcha_blacklist_def
      isClientBlacklisted_eq listed_storage_def empty_storage_def fresh_state_def)

section \<open>Interaction analysis, evaluated\<close>

lemma movement_loop_pairs:
  "movement_loop ps (u, Some (velocity p), Some (direction p)) =
     u + equal_velocity_pairs (p # ps) + equal_direction_pairs (p # ps)"
proof (induction ps arbitrary: u p)
  case Nil
  show ?case
    by (simp add: equal_velocity_pairs_def equal_direction_pairs_def)
next
  case (Cons q qs)
  show ?case
    using Cons.IH [of _ q]
    by (simp add: Let_def equal_velocity_pairs_def equal_direction_pairs_def)
qed

lemma movement_loop_start:
  "movement_loop ps (0, None, None) = equal_velocity_pairs ps + equal_direction_pairs ps"
proof (cases ps)
  case Nil
  then show ?thesis
    by (simp add: equal_velocity_pairs_def equal_direction_pairs_def)
next
  case (Cons p qs)
  then show ?thesis
    using movement_loop_pairs [of qs 0 p] by (simp add: Let_def)
qed

lemma six_alike:
  "equal_velocity_pairs (replicate 6 m) = 5" "equal_direction_pairs (replicate 6 m) = 5"
  by (simp_all add: numeral_eq_Suc equal_velocity_pairs_def equal_direction_pairs_def)

text \<open>
  Claim C7, as the code has it. \<open>analyzeInteractions\<close> returns \<open>false\<close> when more than
  2000 ms have passed with fewer than three interactions. Otherwise, with more than five
  samples, it adds the number of consecutive samples that repeat the velocity of the
  sample before to the number that repeat its direction, divides by the number of samples,
  and returns \<open>false\<close> exactly when the quotient exceeds 3/10. In all other cases it
  returns \<open>true\<close>. Six samples that all agree give a quotient of at least 3/10, and
  \<open>false\<close>.
\<close>

theorem analyzeInteractions_verdict:
  "analyzeInteractions d now =
     (\<not> (now - startTime d > 2000
          \<and> mouseMoves d + mouseClicks d + keyPresses d + touchEvents d < 3)
      \<and> \<not> (length (movementPatterns d) > 5
          \<and> (of_nat (equal_velocity_pairs (movementPatterns d)
                     + equal_direction_pairs (movementPatterns d)) :: rat)
              / of_nat (length (movementPatterns d)) > 3 / 10))
   \<and> (movementPatterns d = replicate 6 m \<longrightarrow>
        (of_nat (equal_velocity_pairs (movementPatterns d)
                 + equal_direction_pairs (movementPatterns d)) :: rat)
          / of_nat (length (movementPatterns d)) \<ge> 3 / 10
        \<and> \<not> analyzeInteractions d now)"
proof -
  have verdict: "analyzeInteractions d now =
     (\<not> (now - startTime d > 2000
          \<and> mouseMoves d + mouseClicks d + keyPresses d + touchEvents d < 3)
      \<and> \<not> (length (movementPatterns d) > 5
          \<and> (of_nat (equal_velocity_pairs (movementPatterns d)
                     + equal_direction_pairs (movementPatterns d)) :: rat)
              / of_nat (length (movementPatterns d)) > 3 / 10))" for d
    by (simp add: analyzeInteractions_def Let_def movement_loop_start)
  have alike: "(of_nat (equal_velocity_pairs (movementPatterns d)
                 + equal_direction_pairs (movementPatterns d)) :: rat)
          / of_nat (length (movementPatterns d)) \<ge> 3 / 10
        \<and> \<not> analyzeInteractions d now"
    if "movementPatterns d = replicate 6 m"
    using that by (simp add: verdict six_alike)
  from verdict alike show ?thesis
    by blast
qed

text \<open>
  Six equal samples are judged not human; a visitor with seven mouse moves and no samples
  is judged human.
\<close>

theorem analyzeInteractions_verdict_witness:
  "movementPatterns (busy_visitor (replicate 6 \<lparr>velocity = 1, direction = 0\<rparr>))
     = replicate 6 \<lparr>velocity = 1, direction = 0\<rparr>
   \<and> \<not> analyzeInteractions (busy_visitor (replicate 6 \<lparr>velocity = 1, direction = 0\<rparr>)) 1000
   \<and> analyzeInteractions (busy_visitor []) 1000"
proof -
  have h: "movementPatterns (busy_visitor (replicate 6 \<lparr>velocity = 1, direction = 0\<rparr>))
     = replicate 6 \<lparr>velocity = 1, direction = 0\<rparr>"
    by (simp add: busy_visitor_def)
  from analyzeInteractions_verdict
         [of "busy_visitor (replicate 6 \<lparr>velocity = 1, direction = 0\<rparr>)" 1000
             "\<lparr>velocity = 1, direction = 0\<rparr>"] h
  have six: "\<not> analyzeInteractions
                 (busy_visitor (replicate 6 \<lparr>velocity = 1, direction = 0\<rparr>)) 1000"
    by blast
  from analyzeInteractions_verdict
         [of "busy_visitor []" 1000 "\<lparr>velocity = 1, direction = 0\<rparr>"]
  have "analyzeInteractions (busy_visitor []) 1000 =
     (\<not> (1000 - startTime (busy_visitor []) > 2000
          \<and> mouseMoves (busy_visitor []) + mouseClicks (busy_visitor [])
              + keyPresses (busy_visitor []) + touchEvents (busy_visitor []) < 3)
      \<and> \<not> (length (movementPatterns (busy_visitor [])) > 5
          \<and> (of_nat (equal_velocity_pairs (movementPatterns (busy_visitor []))
                     + equal_direction_pairs (movementPatterns (busy_visitor []))) :: rat)
              / of_nat (length (movementPatterns (busy_visitor []))) > 3 / 10))"
    by blast
  then have none: "analyzeInteractions (busy_visitor []) 1000"
    by (simp add: busy_visitor_def)
  from h six none show ?thesis
    by blast
qed

text \<open>
  Claim C7 as stated fails for six samples of which only the first two agree, in velocity
  and in direction. One consecutive pair in five agrees, a fraction of 1/5, below 30 percent;
  the loop counts that pair twice and divides by six samples, 2/6 exceeds 3/10, and the
  function returns \<open>false\<close>.
\<close>

theorem analyzeInteractions_verdict_counterexample:
  "mouseMoves (busy_visitor one_repeat) = 7
   \<and> length (movementPatterns (busy_visitor one_repeat)) = 6
   \<and> spec_uniform_fraction (movementPatterns (busy_visitor one_repeat)) = 1 / 5
   \<and> (1 / 5 :: rat) < 3 / 10
   \<and> \<not> analyzeInteractions (busy_visitor one_repeat) 1000"
  by (simp add: busy_visitor_def one_repeat_def spec_uniform_fraction_def
      analyzeInteractions_def Let_def)


section \<open>The order of the checks\<close>





lemma checkBlacklist_throws:
  assumes "getClientIdentifier br = Inl e"
  shows "checkBlacklist st br ck now = Inl e"
  using assms by (simp add: checkBlacklist_def Let_def)





section \<open>Active blacklist entries\<close>

text \<open>
  Claim C5, as the code has it. For a client whose identifier the blacklist in storage
  holds with an expiry after \<open>now\<close>, \<open>checkBlacklist\<close> returns \<open>blocked = true\<close>,
  whatever the user agent. The reason is \<open>known_bot\<close> when the user agent includes a
  bot signature, \<open>security_tool\<close> when it includes a security tool and no bot signature,
  and \<open>blacklisted\<close>, with the state unchanged, when it includes neither. No
  fingerprint is among the inputs.
\<close>

theorem active_entry_blocks:
  assumes "getClientIdentifier br = Inr clientId"
    and "read_captcha_blacklist (localStorage st) = Inr bl"
    and "map_of bl clientId = Some e"
    and "expires e > now"
  shows "\<exists>res st'. checkBlacklist st br ck now = Inr (res, st') \<and> blocked res
     \<and> (list_ex (\<lambda>botSignature.
            includes_str (toLowerCase (engine_toLowerCase br) (navigator_userAgent br))
              (units botSignature)) knownBotSignatures \<longrightarrow>
          reason res = Some ''known_bot'')
     \<and> (\<not> list_ex (\<lambda>botSignature.
            includes_str (toLowerCase (engine_toLowerCase br) (navigator_userAgent br))
              (units botSignature)) knownBotSignatures
        \<and> list_ex (\<lambda>tool.
            includes_str (toLowerCase (engine_toLowerCase br) (navigator_userAgent br))
              (units tool)) securityTools \<longrightarrow>
          reason res = Some ''security_tool'')
     \<and> (\<not> list_ex (\<lambda>botSignature.
            includes_str (toLowerCase (engine_toLowerCase br) (navigator_userAgent br))
              (units botSignature)) knownBotSignatures
        \<and> \<not> list_ex (\<lambda>tool.
            includes_str (toLowerCase (engine_toLowerCase br) (navigator_userAgent br))
              (units tool)) securityTools \<longrightarrow>
          reason res = Some ''blacklisted'' \<and> st' = st)"
proof -
  obtain sb where sb: "recordFailedAttempt st clientId ''known_bot_useragent'' ck = Inr sb"
    using recordFailedAttempt_total by blast
  obtain ss where ss: "recordFailedAttempt st clientId ''security_tool_detected'' ck = Inr ss"
    using recordFailedAttempt_total by blast
  show ?thesis
  proof (cases "list_ex (\<lambda>botSignature.
            includes_str (toLowerCase (engine_toLowerCase br) (navigator_userAgent br))
              (units botSignature)) knownBotSignatures")
    case True
    with assms(1) sb show ?thesis
      by (simp add: checkBlacklist_def)
  next
    case bot: False
    show ?thesis
    proof (cases "list_ex (\<lambda>tool.
            includes_str (toLowerCase (engine_toLowerCase br) (navigator_userAgent br))
              (units tool)) securityTools")
      case True
      with bot assms(1) ss show ?thesis
        by (simp add: checkBlacklist_def)
    next
      case False
      with bot assms show ?thesis
        by (simp add: checkBlacklist_def isClientBlacklisted_eq)
    qed
  qed
qed

text \<open>
  An entry that expires at 100, checked at 5: for a browser user agent, and for
  \<open>curl\<close>.
\<close>

theorem active_entry_blocks_witness:
  "getClientIdentifier plain_browser = Inr ''TW96aWxsYS81LjAgKFgxMTsgTGludXgg''
   \<and> read_captcha_blacklist
        (localStorage (fresh_state (blacklisting ''TW96aWxsYS81LjAgKFgxMTsgTGludXgg'' 100)))
       = Inr [(''TW96aWxsYS81LjAgKFgxMTsgTGludXgg'',
               \<lparr>added = 0, expires = 100, reasons = []\<rparr>)]
   \<and> checkBlacklist (fresh_state (blacklisting ''TW96aWxsYS81LjAgKFgxMTsgTGludXgg'' 100))
        plain_browser (steady_clock 5) 5
       = Inr (\<lparr>blocked = True, reason = Some ''blacklisted''\<rparr>,
              fresh_state (blacklisting ''TW96aWxsYS81LjAgKFgxMTsgTGludXgg'' 100))
   \<and> getClientIdentifier (plain_browser\<lparr>navigator_userAgent := units ''curl/8.0''\<rparr>)
       = Inr ''Y3VybC84LjB8ZW58MTkyMHgxMDgwfDh8''
   \<and> (\<exists>st'. checkBlacklist
               (fresh_state (blacklisting ''Y3VybC84LjB8ZW58MTkyMHgxMDgwfDh8'' 100))
               (plain_browser\<lparr>navigator_userAgent := units ''curl/8.0''\<rparr>)
               (steady_clock 5) 5
             = Inr (\<lparr>blocked = True, reason = Some ''known_bot''\<rparr>, st'))"
proof -
  have none: "\<not> list_ex (\<lambda>botSignature.
            includes_str (toLowerCase (engine_toLowerCase plain_browser)
              (navigator_userAgent plain_browser)) (units botSignature)) knownBotSignatures"
    "\<not> list_ex (\<lambda>tool.
            includes_str (toLowerCase (engine_toLowerCase plain_browser)
              (navigator_userAgent plain_browser)) (units tool)) securityTools"
    by code_simp+
  have bot: "list_ex (\<lambda>botSignature.
            includes_str
              (toLowerCase
                (engine_toLowerCase (plain_browser\<lparr>navigator_userAgent := units ''curl/8.0''\<rparr>))
                (navigator_userAgent (plain_browser\<lparr>navigator_userAgent := units ''curl/8.0''\<rparr>)))
              (units botSignature)) knownBotSignatures"
    by code_simp
  have h1: "getClientIdentifier plain_browser = Inr ''TW96aWxsYS81LjAgKFgxMTsgTGludXgg''"
    by code_simp
  have k1: "getClientIdentifier (plain_browser\<lparr>navigator_userAgent := units ''curl/8.0''\<rparr>)
       = Inr ''Y3VybC84LjB8ZW58MTkyMHgxMDgwfDh8''"
    by code_simp
  have h3: "read_captcha_blacklist (localStorage (fresh_state (blacklisting cid 100)))
     = Inr [(cid, \<lparr>added = 0, expires = 100, reasons = []\<rparr>)]" for cid
    by (simp add: read_captcha_blacklist_eq blacklisting_def empty_storage_def fresh_state_def)
  have h4: "map_of [(cid, \<lparr>added = 0, expires = 100, reasons = []\<rparr>)] cid
     = Some \<lparr>added = 0, expires = 100, reasons = []\<rparr>" for cid :: string
    by simp
  have h5: "expires \<lparr>added = 0, expires = 100, reasons = []\<rparr> > 5"
    by simp
  from active_entry_blocks [OF h1 h3 h4 h5, of "steady_clock 5"] none
  obtain res where
    "checkBlacklist (fresh_state (blacklisting ''TW96aWxsYS81LjAgKFgxMTsgTGludXgg'' 100))
        plain_browser (steady_clock 5) 5
       = Inr (res, fresh_state (blacklisting ''TW96aWxsYS81LjAgKFgxMTsgTGludXgg'' 100))"
    "blocked res" "reason res = Some ''blacklisted''"
    by blast
  then have a: "checkBlacklist (fresh_state (blacklisting ''TW96aWxsYS81LjAgKFgxMTsgTGludXgg'' 100))
        plain_browser (steady_clock 5) 5
       = Inr (\<lparr>blocked = True, reason = Some ''blacklisted''\<rparr>,
              fresh_state (blacklisting ''TW96aWxsYS81LjAgKFgxMTsgTGludXgg'' 100))"
    by (cases res) simp
  from active_entry_blocks [OF k1 h3 h4 h5, of "steady_clock 5"] bot
  obtain res' st' where
    "checkBlacklist (fresh_state (blacklisting ''Y3VybC84LjB8ZW58MTkyMHgxMDgwfDh8'' 100))
               (plain_browser\<lparr>navigator_userAgent := units ''curl/8.0''\<rparr>)
               (steady_clock 5) 5 = Inr (res', st')"
    "blocked res'" "reason res' = Some ''known_bot''"
    by blast
  then have b: "\<exists>st'. checkBlacklist
               (fresh_state (blacklisting ''Y3VybC84LjB8ZW58MTkyMHgxMDgwfDh8'' 100))
               (plain_browser\<lparr>navigator_userAgent := units ''curl/8.0''\<rparr>)
               (steady_clock 5) 5
             = Inr (\<lparr>blocked = True, reason = Some ''known_bot''\<rparr>, st')"
    by (cases res') auto
  from h1 h3 a k1 b show ?thesis
    by blast
qed

text \<open>
  Claim C5 as stated fails for a client with an active entry whose user agent includes a
  bot signature: the first loop returns \<open>known_bot\<close> before the blacklist is read.
\<close>

theorem active_entry_blocks_counterexample:
  "getClientIdentifier (plain_browser\<lparr>navigator_userAgent := units ''curl/8.0''\<rparr>)
       = Inr ''Y3VybC84LjB8ZW58MTkyMHgxMDgwfDh8''
   \<and> isClientBlacklisted (blacklisting ''Y3VybC84LjB8ZW58MTkyMHgxMDgwfDh8'' 100)
        ''Y3VybC84LjB8ZW58MTkyMHgxMDgwfDh8'' 5 = Inr True
   \<and> map_sum id fst
        (checkBlacklist (fresh_state (blacklisting ''Y3VybC84LjB8ZW58MTkyMHgxMDgwfDh8'' 100))
           (plain_browser\<lparr>navigator_userAgent := units ''curl/8.0''\<rparr>) (steady_clock 5) 5)
       = Inr \<lparr>blocked = True, reason = Some ''known_bot''\<rparr>"
proof -
  have bot: "list_ex (\<lambda>botSignature.
            includes_str
              (toLowerCase
                (engine_toLowerCase (plain_browser\<lparr>navigator_userAgent := units ''curl/8.0''\<rparr>))
                (navigator_userAgent (plain_browser\<lparr>navigator_userAgent := units ''curl/8.0''\<rparr>)))
              (units botSignature)) knownBotSignatures"
    by code_simp
  have k1: "getClientIdentifier (plain_browser\<lparr>navigator_userAgent := units ''curl/8.0''\<rparr>)
       = Inr ''Y3VybC84LjB8ZW58MTkyMHgxMDgwfDh8''"
    by code_simp
  have listed: "isClientBlacklisted (blacklisting ''Y3VybC84LjB8ZW58MTkyMHgxMDgwfDh8'' 100)
        ''Y3VybC84LjB8ZW58MTkyMHgxMDgwfDh8'' 5 = Inr True"
    by (simp add: isClientBlacklisted_eq read_captcha_blacklist_eq blacklisting_def
        empty_storage_def)
  obtain st' where "recordFailedAttempt
      (fresh_state (blacklisting ''Y3VybC84LjB8ZW58MTkyMHgxMDgwfDh8'' 100))
      ''Y3VybC84LjB8ZW58MTkyMHgxMDgwfDh8'' ''known_bot_useragent'' (steady_clock 5) = Inr st'"
    using recordFailedAttempt_total by blast
  with bot k1 have "map_sum id fst
        (checkBlacklist (fresh_state (blacklisting ''Y3VybC84LjB8ZW58MTkyMHgxMDgwfDh8'' 100))
           (plain_browser\<lparr>navigator_userAgent := units ''curl/8.0''\<rparr>) (steady_clock 5) 5)
       = Inr \<lparr>blocked = True, reason = Some ''known_bot''\<rparr>"
    by (simp add: checkBlacklist_def)
  with k1 listed show ?thesis
    by blast
qed

section \<open>Effects of the blacklist check\<close>

text \<open>
  Claim C10. \<open>checkBlacklist\<close> returns exactly when \<open>getClientIdentifier\<close> does.
  When it returns \<open>known_bot\<close> or \<open>security_tool\<close>, the state it leaves is the state
  one call of \<open>recordFailedAttempt\<close> (with \<open>known_bot_useragent\<close>, or
  \<open>security_tool_detected\<close>) leaves for the client, and the client's entry in the
  failed-attempt map has changed. When it returns \<open>blocked = false\<close>, or
  \<open>blacklisted\<close>, the failed-attempt map, and the whole state, is as before.
\<close>

theorem checkBlacklist_effects:
  "(\<forall>e. getClientIdentifier br = Inl e \<longrightarrow> checkBlacklist st br ck now = Inl e)
   \<and> (\<forall>clientId. getClientIdentifier br = Inr clientId \<longrightarrow>
        (\<exists>res st'. checkBlacklist st br ck now = Inr (res, st')
           \<and> (blocked res \<and> reason res = Some ''known_bot'' \<longrightarrow>
                recordFailedAttempt st clientId ''known_bot_useragent'' ck = Inr st'
                \<and> map_of (failedAttempts st') clientId \<noteq> map_of (failedAttempts st) clientId)
           \<and> (blocked res \<and> reason res = Some ''security_tool'' \<longrightarrow>
                recordFailedAttempt st clientId ''security_tool_detected'' ck = Inr st'
                \<and> map_of (failedAttempts st') clientId \<noteq> map_of (failedAttempts st) clientId)
           \<and> (\<not> blocked res \<or> (blocked res \<and> reason res = Some ''blacklisted'') \<longrightarrow>
                failedAttempts st' = failedAttempts st \<and> st' = st)))"
proof (intro conjI allI impI)
  fix e
  assume "getClientIdentifier br = Inl e"
  then show "checkBlacklist st br ck now = Inl e"
    by (rule checkBlacklist_throws)
next
  fix clientId
  assume cid: "getClientIdentifier br = Inr clientId"
  obtain sb where sb: "recordFailedAttempt st clientId ''known_bot_useragent'' ck = Inr sb"
    using recordFailedAttempt_total by blast
  obtain ss where ss: "recordFailedAttempt st clientId ''security_tool_detected'' ck = Inr ss"
    using recordFailedAttempt_total by blast
  note ch = recordFailedAttempt_changes [OF sb] recordFailedAttempt_changes [OF ss]
  show "\<exists>res st'. checkBlacklist st br ck now = Inr (res, st')
           \<and> (blocked res \<and> reason res = Some ''known_bot'' \<longrightarrow>
                recordFailedAttempt st clientId ''known_bot_useragent'' ck = Inr st'
                \<and> map_of (failedAttempts st') clientId \<noteq> map_of (failedAttempts st) clientId)
           \<and> (blocked res \<and> reason res = Some ''security_tool'' \<longrightarrow>
                recordFailedAttempt st clientId ''security_tool_detected'' ck = Inr st'
                \<and> map_of (failedAttempts st') clientId \<noteq> map_of (failedAttempts st) clientId)
           \<and> (\<not> blocked res \<or> (blocked res \<and> reason res = Some ''blacklisted'') \<longrightarrow>
                failedAttempts st' = failedAttempts st \<and> st' = st)"
  proof (cases "list_ex (\<lambda>botSignature.
            includes_str (toLowerCase (engine_toLowerCase br) (navigator_userAgent br))
              (units botSignature)) knownBotSignatures")
    case True
    with cid sb ch show ?thesis
      by (simp add: checkBlacklist_def)
  next
    case bot: False
    show ?thesis
    proof (cases "list_ex (\<lambda>tool.
            includes_str (toLowerCase (engine_toLowerCase br) (navigator_userAgent br))
              (units tool)) securityTools")
      case True
      with bot cid ss ch show ?thesis
        by (simp add: checkBlacklist_def)
    next
      case False
      with bot cid show ?thesis
        by (simp add: checkBlacklist_def isClientBlacklisted_eq)
    qed
  qed
qed


text \<open>
  The outcomes at concrete inputs: a bot user agent, a security tool, a blacklisted client,
  an unknown one, and a user agent on which \<open>btoa\<close> throws.
\<close>

theorem checkBlacklist_effects_witness:
  "getClientIdentifier (plain_browser\<lparr>navigator_userAgent := units ''curl/8.0''\<rparr>)
     = Inr ''Y3VybC84LjB8ZW58MTkyMHgxMDgwfDh8''
   \<and> (\<exists>st'. checkBlacklist (fresh_state empty_storage)
               (plain_browser\<lparr>navigator_userAgent := units ''curl/8.0''\<rparr>) (steady_clock 5) 5
             = Inr (\<lparr>blocked = True, reason = Some ''known_bot''\<rparr>, st')
         \<and> recordFailedAttempt (fresh_state empty_storage)
             ''Y3VybC84LjB8ZW58MTkyMHgxMDgwfDh8'' ''known_bot_useragent''
             (steady_clock 5) = Inr st'
         \<and> map_of (failedAttempts st') ''Y3VybC84LjB8ZW58MTkyMHgxMDgwfDh8''
             \<noteq> map_of (failedAttempts (fresh_state empty_storage))
                  ''Y3VybC84LjB8ZW58MTkyMHgxMDgwfDh8'')
   \<and> getClientIdentifier (plain_browser\<lparr>navigator_userAgent := units ''Avast/22''\<rparr>)
       = Inr ''QXZhc3QvMjJ8ZW58MTkyMHgxMDgwfDh8''
   \<and> (\<exists>st'. checkBlacklist (fresh_state empty_storage)
               (plain_browser\<lparr>navigator_userAgent := units ''Avast/22''\<rparr>) (steady_clock 5) 5
             = Inr (\<lparr>blocked = True, reason = Some ''security_tool''\<rparr>, st')
         \<and> recordFailedAttempt (fresh_state empty_storage)
             ''QXZhc3QvMjJ8ZW58MTkyMHgxMDgwfDh8'' ''security_tool_detected''
             (steady_clock 5) = Inr st'
         \<and> map_of (failedAttempts st') ''QXZhc3QvMjJ8ZW58MTkyMHgxMDgwfDh8''
             \<noteq> map_of (failedAttempts (fresh_state empty_storage))
                  ''QXZhc3QvMjJ8ZW58MTkyMHgxMDgwfDh8'')
   \<and> getClientIdentifier plain_browser = Inr ''TW96aWxsYS81LjAgKFgxMTsgTGludXgg''
   \<and> (\<exists>st'. checkBlacklist
               (fresh_state (blacklisting ''TW96aWxsYS81LjAgKFgxMTsgTGludXgg'' 100))
               plain_browser (steady_clock 5) 5
             = Inr (\<lparr>blocked = True, reason = Some ''blacklisted''\<rparr>, st')
         \<and> failedAttempts st'
             = failedAttempts (fresh_state (blacklisting ''TW96aWxsYS81LjAgKFgxMTsgTGludXgg'' 100)))
   \<and> (\<exists>st'. checkBlacklist (fresh_state empty_storage) plain_browser (steady_clock 5) 5
             = Inr (\<lparr>blocked = False, reason = None\<rparr>, st')
         \<and> failedAttempts st' = failedAttempts (fresh_state empty_storage))
   \<and> checkBlacklist (fresh_state empty_storage)
        (plain_browser\<lparr>navigator_userAgent := units ''curl/8.0 '' @ [9731]\<rparr>)
        (steady_clock 5) 5 = Inl InvalidCharacterError"
proof -
  let ?curl = "plain_browser\<lparr>navigator_userAgent := units ''curl/8.0''\<rparr>"
  let ?avast = "plain_browser\<lparr>navigator_userAgent := units ''Avast/22''\<rparr>"
  let ?wide = "plain_browser\<lparr>navigator_userAgent := units ''curl/8.0 '' @ [9731]\<rparr>"
  let ?listed = "fresh_state (blacklisting ''TW96aWxsYS81LjAgKFgxMTsgTGludXgg'' 100)"
  have id1: "getClientIdentifier ?curl = Inr ''Y3VybC84LjB8ZW58MTkyMHgxMDgwfDh8''"
    by code_simp
  have id2: "getClientIdentifier ?avast = Inr ''QXZhc3QvMjJ8ZW58MTkyMHgxMDgwfDh8''"
    by code_simp
  have id3: "getClientIdentifier plain_browser = Inr ''TW96aWxsYS81LjAgKFgxMTsgTGludXgg''"
    by code_simp
  have id4: "getClientIdentifier ?wide = Inl InvalidCharacterError"
    by code_simp
  have bot: "list_ex (\<lambda>botSignature.
       includes_str (toLowerCase (engine_toLowerCase ?curl) (navigator_userAgent ?curl))
         (units botSignature)) knownBotSignatures"
    by code_simp
  have tool: "\<not> list_ex (\<lambda>botSignature.
       includes_str (toLowerCase (engine_toLowerCase ?avast) (navigator_userAgent ?avast))
         (units botSignature)) knownBotSignatures"
    "list_ex (\<lambda>tool.
       includes_str (toLowerCase (engine_toLowerCase ?avast) (navigator_userAgent ?avast))
         (units tool)) securityTools"
    by code_simp+
  have none: "\<not> list_ex (\<lambda>botSignature.
       includes_str (toLowerCase (engine_toLowerCase plain_browser)
         (navigator_userAgent plain_browser)) (units botSignature)) knownBotSignatures"
    "\<not> list_ex (\<lambda>tool.
       includes_str (toLowerCase (engine_toLowerCase plain_browser)
         (navigator_userAgent plain_browser)) (units tool)) securityTools"
    by code_simp+
  have r1: "\<exists>st'. checkBlacklist (fresh_state empty_storage) ?curl (steady_clock 5) 5
             = Inr (\<lparr>blocked = True, reason = Some ''known_bot''\<rparr>, st')"
    using bot id1 recordFailedAttempt_total
      [of "fresh_state empty_storage" "''Y3VybC84LjB8ZW58MTkyMHgxMDgwfDh8''"
          "''known_bot_useragent''" "steady_clock 5"]
    by (auto simp: checkBlacklist_def)
  have r2: "\<exists>st'. checkBlacklist (fresh_state empty_storage) ?avast (steady_clock 5) 5
             = Inr (\<lparr>blocked = True, reason = Some ''security_tool''\<rparr>, st')"
    using tool id2 recordFailedAttempt_total
      [of "fresh_state empty_storage" "''QXZhc3QvMjJ8ZW58MTkyMHgxMDgwfDh8''"
          "''security_tool_detected''" "steady_clock 5"]
    by (auto simp: checkBlacklist_def)
  have r3: "\<exists>st'. checkBlacklist ?listed plain_browser (steady_clock 5) 5
             = Inr (\<lparr>blocked = True, reason = Some ''blacklisted''\<rparr>, st')"
    using none id3
    by (simp add: checkBlacklist_def isClientBlacklisted_eq
        read_captcha_blacklist_eq blacklisting_def empty_storage_def fresh_state_def)
  have r4: "\<exists>st'. checkBlacklist (fresh_state empty_storage) plain_browser (steady_clock 5) 5
             = Inr (\<lparr>blocked = False, reason = None\<rparr>, st')"
    using none id3
    by (simp add: checkBlacklist_def isClientBlacklisted_eq
        read_captcha_blacklist_eq empty_storage_def fresh_state_def)
  note eff = checkBlacklist_effects [THEN conjunct2, rule_format]
  from r1 eff [OF id1, of "fresh_state empty_storage" "steady_clock 5" 5]
  have c1: "\<exists>st'. checkBlacklist (fresh_state empty_storage) ?curl (steady_clock 5) 5
             = Inr (\<lparr>blocked = True, reason = Some ''known_bot''\<rparr>, st')
         \<and> recordFailedAttempt (fresh_state empty_storage)
             ''Y3VybC84LjB8ZW58MTkyMHgxMDgwfDh8'' ''known_bot_useragent''
             (steady_clock 5) = Inr st'
         \<and> map_of (failedAttempts st') ''Y3VybC84LjB8ZW58MTkyMHgxMDgwfDh8''
             \<noteq> map_of (failedAttempts (fresh_state empty_storage))
                  ''Y3VybC84LjB8ZW58MTkyMHgxMDgwfDh8''"
    by auto
  from r2 eff [OF id2, of "fresh_state empty_storage" "steady_clock 5" 5]
  have c2: "\<exists>st'. checkBlacklist (fresh_state empty_storage) ?avast (steady_clock 5) 5
             = Inr (\<lparr>blocked = True, reason = Some ''security_tool''\<rparr>, st')
         \<and> recordFailedAttempt (fresh_state empty_storage)
             ''QXZhc3QvMjJ8ZW58MTkyMHgxMDgwfDh8'' ''security_tool_detected''
             (steady_clock 5) = Inr st'
         \<and> map_of (failedAttempts st') ''QXZhc3QvMjJ8ZW58MTkyMHgxMDgwfDh8''
             \<noteq> map_of (failedAttempts (fresh_state empty_storage))
                  ''QXZhc3QvMjJ8ZW58MTkyMHgxMDgwfDh8''"
    by auto
  from r3 eff [OF id3, of ?listed "steady_clock 5" 5]
  have c3: "\<exists>st'. checkBlacklist ?listed plain_browser (steady_clock 5) 5
             = Inr (\<lparr>blocked = True, reason = Some ''blacklisted''\<rparr>, st')
         \<and> failedAttempts st' = failedAttempts ?listed"
    by auto
  from r4 eff [OF id3, of "fresh_state empty_storage" "steady_clock 5" 5]
  have c4: "\<exists>st'. checkBlacklist (fresh_state empty_storage) plain_browser (steady_clock 5) 5
             = Inr (\<lparr>blocked = False, reason = None\<rparr>, st')
         \<and> failedAttempts st' = failedAttempts (fresh_state empty_storage)"
    by auto
  from checkBlacklist_effects [THEN conjunct1, rule_format, OF id4]
  have c5: "checkBlacklist (fresh_state empty_storage) ?wide (steady_clock 5) 5
      = Inl InvalidCharacterError" .
  from id1 c1 id2 c2 id3 c3 c4 c5 show ?thesis
    by blast
qed

section \<open>The suspicious-pattern ratio\<close>

lemma if_bump: "(if b then c + x else c) = c + of_bool b * (x :: rat)"
  by simp

lemma count_triggered: "length (filter id (b # bs)) = of_bool b + length (filter id bs)"
  by simp

lemma suspicious_score_eq:
  assumes "storage_check br = Inr missing"
  shows "suspicious_score fp br =
     Inr (of_bool (fonts_check fp) + of_bool (canvas_check fp) + of_bool (webgl_check fp)
      + of_bool (chrome_check br) + of_bool (firefox_check br)
      + of_bool (languages_check br) + of_bool missing
      + of_bool (pixelRatio_check br) * (1 / 2) + of_bool (plugins_check br), 8)"
  unfolding suspicious_score_def Let_def suspiciousPatterns_def if_bump assms
  by simp

lemma suspicious_score_throws:
  assumes "storage_check br = Inl e"
  shows "hasTooManySuspiciousPatterns fp br = Inl e"
  by (simp add: hasTooManySuspiciousPatterns_def suspicious_score_def Let_def assms)

lemma triggered_checks_count:
  assumes "storage_check br = Inr missing"
  shows "length (filter id (triggered_checks fp br)) =
     of_bool (fonts_check fp) + of_bool (canvas_check fp) + of_bool (webgl_check fp)
     + of_bool (chrome_check br \<or> firefox_check br)
     + of_bool (languages_check br) + of_bool missing
     + of_bool (pixelRatio_check br) + of_bool (plugins_check br)"
  unfolding triggered_checks_def count_triggered assms
  by simp

lemma unit_weight_score:
  assumes "storage_check br = Inr missing"
    and "\<not> pixelRatio_check br" and "\<not> (chrome_check br \<and> firefox_check br)"
  shows "suspicious_score fp br
           = Inr (of_nat (length (filter id (triggered_checks fp br))), 8)"
proof -
  from assms(3) have ua: "(of_bool (chrome_check br \<or> firefox_check br) :: rat)
      = of_bool (chrome_check br) + of_bool (firefox_check br)"
    by auto
  show ?thesis
    unfolding suspicious_score_eq [OF assms(1)] triggered_checks_count [OF assms(1)]
      of_nat_add of_nat_of_bool ua
    using assms(2) by simp
qed

text \<open>
  Claim C6, as the code has it. When reading the storage properties does not throw,
  \<open>totalChecks\<close> is 8 and \<open>hasTooManySuspiciousPatterns\<close> returns \<open>true\<close> exactly when
  \<open>suspiciousCount / 8\<close> exceeds 4/10. When every triggered check adds one point (the
  pixel-ratio check, which adds a half, is not triggered, and the user-agent check does
  not fire for Chrome and Firefox at once), four triggered checks give the ratio 1/2 and
  the verdict \<open>true\<close>, three give 3/8 and \<open>false\<close>.
\<close>

theorem suspicious_ratio:
  assumes "storage_check br = Inr missing"
  shows "\<exists>suspiciousCount. suspicious_score fp br = Inr (suspiciousCount, 8)
     \<and> hasTooManySuspiciousPatterns fp br = Inr (suspiciousCount / 8 > 4 / 10)
     \<and> (\<not> pixelRatio_check br \<and> \<not> (chrome_check br \<and> firefox_check br)
          \<and> length (filter id (triggered_checks fp br)) = 4 \<longrightarrow>
          suspiciousCount / 8 = 1 / 2 \<and> hasTooManySuspiciousPatterns fp br = Inr True)
     \<and> (\<not> pixelRatio_check br \<and> \<not> (chrome_check br \<and> firefox_check br)
          \<and> length (filter id (triggered_checks fp br)) = 3 \<longrightarrow>
          suspiciousCount / 8 = 3 / 8 \<and> hasTooManySuspiciousPatterns fp br = Inr False)"
proof -
  obtain c where score: "suspicious_score fp br = Inr (c, 8)"
    using suspicious_score_eq [OF assms] by blast
  then have verdict: "hasTooManySuspiciousPatterns fp br = Inr (c / 8 > 4 / 10)"
    by (simp add: hasTooManySuspiciousPatterns_def)
  have four: "c / 8 = 1 / 2 \<and> hasTooManySuspiciousPatterns fp br = Inr True"
    if "\<not> pixelRatio_check br \<and> \<not> (chrome_check br \<and> firefox_check br)
          \<and> length (filter id (triggered_checks fp br)) = 4"
    using that unit_weight_score [OF assms, of fp] score by (simp add: verdict)
  have three: "c / 8 = 3 / 8 \<and> hasTooManySuspiciousPatterns fp br = Inr False"
    if "\<not> pixelRatio_check br \<and> \<not> (chrome_check br \<and> firefox_check br)
          \<and> length (filter id (triggered_checks fp br)) = 3"
    using that unit_weight_score [OF assms, of fp] score by (simp add: verdict)
  from score verdict four three show ?thesis
    by blast
qed


text \<open>
  No fonts, canvas blocked, no WebGL and no languages: four checks, too suspicious. The
  same with a language: three checks, not too suspicious.
\<close>

theorem suspicious_ratio_witness:
  "storage_check plain_browser = Inr False
   \<and> length (filter id (triggered_checks
        (plain_fingerprint\<lparr>webglVendor := None, webglRenderer := None,
           canvasHash := ''canvas_not_supported'', fonts := Some []\<rparr>)
        (plain_browser\<lparr>navigator_languages := Some []\<rparr>))) = 4
   \<and> hasTooManySuspiciousPatterns
        (plain_fingerprint\<lparr>webglVendor := None, webglRenderer := None,
           canvasHash := ''canvas_not_supported'', fonts := Some []\<rparr>)
        (plain_browser\<lparr>navigator_languages := Some []\<rparr>) = Inr True
   \<and> length (filter id (triggered_checks
        (plain_fingerprint\<lparr>webglVendor := None, webglRenderer := None,
           canvasHash := ''canvas_not_supported'', fonts := Some []\<rparr>)
        plain_browser)) = 3
   \<and> hasTooManySuspiciousPatterns
        (plain_fingerprint\<lparr>webglVendor := None, webglRenderer := None,
           canvasHash := ''canvas_not_supported'', fonts := Some []\<rparr>)
        plain_browser = Inr False"
proof -
  let ?fp = "plain_fingerprint\<lparr>webglVendor := None, webglRenderer := None,
           canvasHash := ''canvas_not_supported'', fonts := Some []\<rparr>"
  let ?br = "plain_browser\<lparr>navigator_languages := Some []\<rparr>"
  have s4: "storage_check ?br = Inr False"
    by code_simp
  have s3: "storage_check plain_browser = Inr False"
    by code_simp
  have u4: "\<not> pixelRatio_check ?br \<and> \<not> (chrome_check ?br \<and> firefox_check ?br)
      \<and> length (filter id (triggered_checks ?fp ?br)) = 4"
    by code_simp
  have u3: "\<not> pixelRatio_check plain_browser
      \<and> \<not> (chrome_check plain_browser \<and> firefox_check plain_browser)
      \<and> length (filter id (triggered_checks ?fp plain_browser)) = 3"
    by code_simp
  from suspicious_ratio [OF s4, of ?fp] u4
  have a: "hasTooManySuspiciousPatterns ?fp ?br = Inr True"
    by blast
  from suspicious_ratio [OF s3, of ?fp] u3
  have b: "hasTooManySuspiciousPatterns ?fp plain_browser = Inr False"
    by blast
  from s3 u4 a u3 b show ?thesis
    by blast
qed

text \<open>
  Claim C6 as stated fails at three inputs. With no fonts, a blocked canvas and a user
  agent that names Chrome and Firefox while neither global exists, three checks are
  triggered, the user-agent check adds two points, the ratio is 4/8 and the verdict is
  \<open>true\<close>. With no fonts, a blocked canvas and a device pixel ratio of 2, three checks
  are triggered and the ratio is 5/16, not 3/8. And in a browser whose \<open>localStorage\<close>
  getter throws, the function returns nothing.
\<close>

theorem suspicious_ratio_counterexample:
  "length (filter id (triggered_checks
      (plain_fingerprint\<lparr>canvasHash := ''canvas_not_supported'', fonts := Some []\<rparr>)
      (plain_browser\<lparr>navigator_userAgent := units ''Chrome Firefox''\<rparr>))) = 3
   \<and> \<not> pixelRatio_check (plain_browser\<lparr>navigator_userAgent := units ''Chrome Firefox''\<rparr>)
   \<and> suspicious_score
        (plain_fingerprint\<lparr>canvasHash := ''canvas_not_supported'', fonts := Some []\<rparr>)
        (plain_browser\<lparr>navigator_userAgent := units ''Chrome Firefox''\<rparr>) = Inr (4, 8)
   \<and> hasTooManySuspiciousPatterns
        (plain_fingerprint\<lparr>canvasHash := ''canvas_not_supported'', fonts := Some []\<rparr>)
        (plain_browser\<lparr>navigator_userAgent := units ''Chrome Firefox''\<rparr>) = Inr True
   \<and> length (filter id (triggered_checks
        (plain_fingerprint\<lparr>canvasHash := ''canvas_not_supported'', fonts := Some []\<rparr>)
        (plain_browser\<lparr>window_devicePixelRatio := Some 2\<rparr>))) = 3
   \<and> suspicious_score
        (plain_fingerprint\<lparr>canvasHash := ''canvas_not_supported'', fonts := Some []\<rparr>)
        (plain_browser\<lparr>window_devicePixelRatio := Some 2\<rparr>) = Inr (5 / 2, 8)
   \<and> hasTooManySuspiciousPatterns plain_fingerprint
        (plain_browser\<lparr>window_localStorage := Inl SecurityError\<rparr>) = Inl SecurityError"
  by code_simp

section \<open>Signal collection, evaluated\<close>

lemma generateCanvasFingerprint_eq:
  "generateCanvasFingerprint env =
     Inr (case canvas_digest env of Inl e \<Rightarrow> ''canvas_not_supported'' | Inr h \<Rightarrow> h)"
  by (cases "canvas_digest env") (simp_all add: generateCanvasFingerprint_def)

lemma getWebGLInfo_total: "\<exists>info. getWebGLInfo env = Inr info"
  by (cases "webgl_getContext env"; cases "webgl_getExtension env";
      cases "webgl_vendor env"; cases "webgl_renderer env")
     (simp_all add: getWebGLInfo_def)

lemma getWebGLInfo_unavailable:
  assumes "webgl_getContext env \<noteq> Inr True \<or> webgl_getExtension env \<noteq> Inr True
           \<or> isl (webgl_vendor env) \<or> isl (webgl_renderer env)"
  shows "getWebGLInfo env = Inr (None, None)"
  using assms
  by (cases "webgl_getContext env"; cases "webgl_getExtension env";
      cases "webgl_vendor env"; cases "webgl_renderer env")
     (auto simp: getWebGLInfo_def)

lemma getBatteryInfo_total: "\<exists>b. getBatteryInfo env = Inr b"
proof (cases "navigator_getBattery env")
  case None
  then show ?thesis by (simp add: getBatteryInfo_def)
next
  case (Some answer)
  then show ?thesis by (cases answer) (simp_all add: getBatteryInfo_def)
qed

lemma getConnectionType_total: "\<exists>c. getConnectionType env = Inr c"
  by (cases "navigator_connection env") (simp_all add: getConnectionType_def)

lemma getPluginsInfo_total: "\<exists>ps. getPluginsInfo env = Inr ps"
  by (simp add: getPluginsInfo_def split: option.splits)

text \<open>
  Claim C9, as the code has it. When the probes and reads that no \<open>try\<close> surrounds
  return (the \<open>Intl\<close> call, the reads of \<open>window.localStorage\<close>,
  \<open>window.sessionStorage\<close> and \<open>window.indexedDB\<close>, \<open>detectAudioCodecs\<close>,
  \<open>detectVideoCodecs\<close>, \<open>detectFonts\<close>, \<open>benchmarkPerformance\<close> and
  \<open>detectAdBlocker\<close>), \<open>collectFingerprintComponents\<close> returns the components: with
  \<open>canvasHash = "canvas_not_supported"\<close> when the canvas probe throws, and with vendor
  and renderer \<open>null\<close> when WebGL gives no context, no debug extension, or throws.
  Battery, connection and plugin failures never leave their probes.
\<close>

theorem collect_returns_with_sentinels:
  assumes "Intl_timeZone env = Inr tz"
    and "read_localStorage env = Inr hasLocal"
    and "read_sessionStorage env = Inr hasSession"
    and "read_indexedDB env = Inr hasIndexed"
    and "detectAudioCodecs env = Inr audio"
    and "detectVideoCodecs env = Inr video" and "detectFonts env = Inr fs"
    and "benchmarkPerformance env = Inr metrics" and "detectAdBlocker env = Inr ab"
  shows "\<exists>c. collectFingerprintComponents env = Inr c
     \<and> (isl (canvas_digest env) \<longrightarrow> canvasHash c = ''canvas_not_supported'')
     \<and> (webgl_getContext env \<noteq> Inr True \<or> webgl_getExtension env \<noteq> Inr True
          \<or> isl (webgl_vendor env) \<or> isl (webgl_renderer env) \<longrightarrow>
        webglVendor c = None \<and> webglRenderer c = None)"
proof -
  obtain info where info: "getWebGLInfo env = Inr info"
    using getWebGLInfo_total by blast
  obtain b where b: "getBatteryInfo env = Inr b"
    using getBatteryInfo_total by blast
  obtain cn where cn: "getConnectionType env = Inr cn"
    using getConnectionType_total by blast
  obtain ps where ps: "getPluginsInfo env = Inr ps"
    using getPluginsInfo_total by blast
  have nulls: "info = (None, None)"
    if "webgl_getContext env \<noteq> Inr True \<or> webgl_getExtension env \<noteq> Inr True
          \<or> isl (webgl_vendor env) \<or> isl (webgl_renderer env)"
    using getWebGLInfo_unavailable [OF that] info by simp
  show ?thesis
    using assms info b cn ps nulls
    by (auto simp: collectFingerprintComponents_def generateCanvasFingerprint_eq Let_def
        split: sum.splits)
qed

text \<open>
  A browser that blocks the canvas and has no WebGL context.
\<close>

theorem collect_returns_with_sentinels_witness:
  "isl (canvas_digest answering_browser)
   \<and> webgl_getContext answering_browser = Inr False
   \<and> (\<exists>c. collectFingerprintComponents answering_browser = Inr c
         \<and> canvasHash c = ''canvas_not_supported''
         \<and> webglVendor c = None \<and> webglRenderer c = None)"
proof -
  have h: "Intl_timeZone answering_browser = Inr ''UTC''"
    "read_localStorage answering_browser = Inr True"
    "read_sessionStorage answering_browser = Inr True"
    "read_indexedDB answering_browser = Inr True"
    "detectAudioCodecs answering_browser = Inr []"
    "detectVideoCodecs answering_browser = Inr []"
    "detectFonts answering_browser = Inr [''Arial'']"
    "benchmarkPerformance answering_browser = Inr (1, 1)"
    "detectAdBlocker answering_browser = Inr False"
    by (simp_all add: answering_browser_def)
  have c: "isl (canvas_digest answering_browser)"
    "webgl_getContext answering_browser = Inr False"
    by (simp_all add: answering_browser_def)
  from collect_returns_with_sentinels [OF h] c show ?thesis
    by auto
qed

text \<open>
  Claim C9 as stated fails in a browser where a DOM call inside \<open>detectFonts\<close> throws
  (\<open>document.body\<close> is \<open>null\<close>), and in one whose \<open>localStorage\<close> getter throws:
  nothing catches the exception, and \<open>collectFingerprintComponents\<close> fails with it.
\<close>

theorem collect_returns_with_sentinels_counterexample:
  "collectFingerprintComponents bodyless_browser = Inl TypeError
   \<and> collectFingerprintComponents refusing_browser = Inl SecurityError"
  by (simp add: collectFingerprintComponents_def bodyless_browser_def refusing_browser_def
      answering_browser_def generateCanvasFingerprint_eq)

end
